theory Spec2Isabelle
  imports Main "HOL-Library.Sublist"
begin

section \<open>JavaScript values as the widget receives them\<close>

text \<open>
  The response handed to the \<open>done\<close> callback is whatever \<open>$.getJSON\<close> parsed: any JSON
  value. A JSON object is an association list of its own properties (the first entry of a
  key is the property); a number is a value of the type parameter \<open>'n\<close>, since the widget
  never computes with one and only ever converts it to a string. \<open>JUndefined\<close> is what
  reading a property that is not there gives.
\<close>

datatype 'n jsval =
    JUndefined
  | JNull
  | JBool bool
  | JNum 'n
  | JStr string
  | JArr "'n jsval list"
  | JObj "(string \<times> 'n jsval) list"

text \<open>
  The exceptions: a TypeError of the engine, and an \<open>Error\<close> thrown by the mapping library.
\<close>

datatype error = TypeError | LibError

text \<open>
  \<open>v.k\<close> for the property names the widget reads (\<open>data\<close>, \<open>raingages\<close>, \<open>edges\<close>,
  \<open>node\<close>, \<open>id\<close>, \<open>latitude\<close>, \<open>longitude\<close>, \<open>name\<close>), none of which is on a built-in
  prototype: reading from \<open>undefined\<close> or \<open>null\<close> throws a TypeError, an object gives its own
  property or \<open>undefined\<close>, every other value gives \<open>undefined\<close>.
\<close>

fun getprop :: "'n jsval \<Rightarrow> string \<Rightarrow> error + 'n jsval" where
  "getprop JUndefined k = Inl TypeError"
| "getprop JNull k = Inl TypeError"
| "getprop (JObj kvs) k = Inr (case map_of kvs k of None \<Rightarrow> JUndefined | Some v \<Rightarrow> v)"
| "getprop (JBool b) k = Inr JUndefined"
| "getprop (JNum n) k = Inr JUndefined"
| "getprop (JStr s) k = Inr JUndefined"
| "getprop (JArr vs) k = Inr JUndefined"

text \<open>Sequencing of evaluations that may throw: the first exception is the result.\<close>

definition andThen :: "'e + 'a \<Rightarrow> ('a \<Rightarrow> 'e + 'b) \<Rightarrow> 'e + 'b" where
  "andThen m f = (case m of Inl e \<Rightarrow> Inl e | Inr x \<Rightarrow> f x)"

text \<open>\<open>Array.prototype.join\<close> with the separator \<open>","\<close>, on the elements' strings.\<close>

fun commas :: "string list \<Rightarrow> string" where
  "commas [] = []"
| "commas [s] = s"
| "commas (s # t # ss) = s @ '','' @ commas (t # ss)"

text \<open>
  The conversion that \<open>"..." + v\<close> applies to \<open>v\<close>. \<open>ns\<close> is the engine's conversion of a
  number. An array is the join of its elements, where \<open>undefined\<close> and \<open>null\<close> elements give
  the empty string. A parsed object has no callable \<open>toString\<close> of its own: it inherits
  \<open>Object.prototype.toString\<close> and gives \<open>[object Object]\<close>, unless it has an own property
  named \<open>toString\<close>, which shadows the inherited method with a value that cannot be called,
  and the conversion throws a TypeError.
\<close>

fun ToString :: "('n \<Rightarrow> string) \<Rightarrow> 'n jsval \<Rightarrow> error + string"
  and ToStrings :: "('n \<Rightarrow> string) \<Rightarrow> 'n jsval list \<Rightarrow> error + string list" where
  "ToString ns JUndefined = Inr ''undefined''"
| "ToString ns JNull = Inr ''null''"
| "ToString ns (JBool b) = Inr (if b then ''true'' else ''false'')"
| "ToString ns (JNum n) = Inr (ns n)"
| "ToString ns (JStr s) = Inr s"
| "ToString ns (JArr vs) = andThen (ToStrings ns vs) (\<lambda>ss. Inr (commas ss))"
| "ToString ns (JObj kvs) =
     (if map_of kvs ''toString'' = None then Inr ''[object Object]'' else Inl TypeError)"
| "ToStrings ns [] = Inr []"
| "ToStrings ns (v # vs) =
     andThen (if v = JUndefined \<or> v = JNull then Inr [] else ToString ns v)
       (\<lambda>s. andThen (ToStrings ns vs) (\<lambda>ss. Inr (s # ss)))"

text \<open>String concatenation \<open>s + v\<close> with a string on the left.\<close>

definition plus_str :: "('n \<Rightarrow> string) \<Rightarrow> string \<Rightarrow> 'n jsval \<Rightarrow> error + string" where
  "plus_str ns s v = andThen (ToString ns v) (\<lambda>t. Inr (s @ t))"

section \<open>The page\<close>

text \<open>
  What the widget does to the page, as a state.
  \<^item> \<open>themap\<close> is the element with the id \<open>themap\<close>: missing, there and unused, or already
    holding a map.
  \<^item> \<open>markers\<close> are the markers registered with \<open>theMap\<close>, oldest first. A marker has the
    position that \<open>L.marker\<close> made of the coordinate array (the pair of values as passed, or
    \<open>None\<close> when the library made no position of them), the options object as passed
    (\<open>JUndefined\<close> when there is no second argument), and the popup bound to it, if any.
  \<^item> \<open>json_requests\<close> are the URLs passed to \<open>$.getJSON\<close>, oldest first. The images that the
    mapping library makes the browser load (tiles, marker icons) are not calls of the widget
    and are not recorded.
  \<^item> \<open>gage_name\<close> is the content of the element \<open>#gage-name\<close>, \<open>None\<close> when the document has
    no such element. A content is given by the HTML source it was made of: \<open>Parsed s\<close> is
    what \<open>.html(s)\<close> puts into an element, the nodes that the string \<open>s\<close> parses to, which is
    the text \<open>s\<close> itself only when \<open>s\<close> has no markup.
\<close>

datatype container = Missing | Unused | InUse

datatype content = Parsed string

record 'n marker =
  latlng :: "'n jsval list option"
  options :: "'n jsval"
  popup :: "string option"

record 'n page =
  themap :: container
  view :: "((string \<times> string) \<times> string) option"
  tiles :: "string list"
  markers :: "'n marker list"
  json_requests :: "string list"
  click_bound :: bool
  gage_name :: "content option"

subsection \<open>The calls into the mapping library\<close>

text \<open>
  The library is not part of the repository; these definitions follow Leaflet 1.x as far as
  the widget's calls can throw or change what is on the map.

  \<open>L.map('themap')\<close> throws an \<open>Error\<close> when the container is missing or already holds a
  map, and takes the container otherwise.
\<close>

definition Lmap :: "'n page \<Rightarrow> 'n page \<times> error option" where
  "Lmap p =
     (case themap p of
        Missing \<Rightarrow> (p, Some LibError)
      | InUse \<Rightarrow> (p, Some LibError)
      | Unused \<Rightarrow> (p\<lparr>themap := InUse\<rparr>, None))"

text \<open>\<open>typeof v === 'object'\<close>\<close>

fun typeof_object :: "'n jsval \<Rightarrow> bool" where
  "typeof_object JNull = True"
| "typeof_object (JArr vs) = True"
| "typeof_object (JObj kvs) = True"
| "typeof_object JUndefined = False"
| "typeof_object (JBool b) = False"
| "typeof_object (JNum n) = False"
| "typeof_object (JStr s) = False"

text \<open>
  \<open>isNaN(v)\<close>: the value is converted to a number. \<open>numeric s\<close> says that the string \<open>s\<close>
  converts to a number and not to \<open>NaN\<close>, which is the engine's business. \<open>undefined\<close>
  converts to \<open>NaN\<close>; \<open>null\<close>, the booleans and the parsed numbers convert to numbers; an
  array converts as its string does; an object converts as \<open>[object Object]\<close> does, to
  \<open>NaN\<close>, unless its own \<open>toString\<close> makes the conversion throw.
\<close>

fun isNaN :: "(string \<Rightarrow> bool) \<Rightarrow> ('n \<Rightarrow> string) \<Rightarrow> 'n jsval \<Rightarrow> error + bool" where
  "isNaN numeric ns JUndefined = Inr True"
| "isNaN numeric ns JNull = Inr False"
| "isNaN numeric ns (JBool b) = Inr False"
| "isNaN numeric ns (JNum n) = Inr False"
| "isNaN numeric ns (JStr s) = Inr (\<not> numeric s)"
| "isNaN numeric ns (JArr vs) = andThen (ToString ns (JArr vs)) (\<lambda>s. Inr (\<not> numeric s))"
| "isNaN numeric ns (JObj kvs) =
     (if map_of kvs ''toString'' = None then Inr True else Inl TypeError)"

text \<open>
  The position that \<open>L.marker(coords)\<close> makes of a two-element array (the only arrays the
  widget passes): none when the first element is of type \<open>object\<close>; otherwise the pair, and
  an \<open>Error\<close> is thrown when \<open>isNaN(lat) || isNaN(lng)\<close>.
\<close>

definition toLatLng ::
  "(string \<Rightarrow> bool) \<Rightarrow> ('n \<Rightarrow> string) \<Rightarrow> 'n jsval list \<Rightarrow> error + 'n jsval list option" where
  "toLatLng numeric ns coords =
     (case coords of
        [lat, lng] \<Rightarrow>
          if typeof_object lat then Inr None
          else andThen (isNaN numeric ns lat) (\<lambda>a.
                 if a then Inl LibError
                 else andThen (isNaN numeric ns lng) (\<lambda>b.
                        if b then Inl LibError else Inr (Some [lat, lng])))
      | _ \<Rightarrow> Inr None)"

text \<open>\<open>L.marker(coords, options)\<close>: the options are kept, the position is made.\<close>

definition Lmarker ::
  "(string \<Rightarrow> bool) \<Rightarrow> ('n \<Rightarrow> string) \<Rightarrow> 'n jsval list \<Rightarrow> 'n jsval \<Rightarrow> error + 'n marker" where
  "Lmarker numeric ns coords opts =
     andThen (toLatLng numeric ns coords) (\<lambda>pos.
       Inr \<lparr>latlng = pos, options = opts, popup = None\<rparr>)"

text \<open>The \<open>title\<close> of the options of a marker; the default is the empty string.\<close>

definition title_option :: "'n jsval \<Rightarrow> 'n jsval" where
  "title_option opts =
     (case opts of
        JObj kvs \<Rightarrow> (case map_of kvs ''title'' of None \<Rightarrow> JStr [] | Some t \<Rightarrow> t)
      | _ \<Rightarrow> JStr [])"

text \<open>
  \<open>marker.addTo(theMap)\<close> on a map with a view: the marker is registered with the map; its
  icon is made, and a title that is truthy is assigned to the icon's \<open>title\<close>, which
  converts it to a string and can throw (the other titles are scalars, whose conversion
  never throws, so that the conversion is written for every title); the icon is then put at
  the marker's position, which throws a TypeError when the marker has none. A marker whose
  \<open>addTo\<close> throws stays registered.
\<close>

definition addTo :: "('n \<Rightarrow> string) \<Rightarrow> 'n marker \<Rightarrow> 'n page \<Rightarrow> 'n page \<times> error option" where
  "addTo ns m theMap =
     (let theMap1 = theMap\<lparr>markers := markers theMap @ [m]\<rparr>
      in case ToString ns (title_option (options m)) of
           Inl e \<Rightarrow> (theMap1, Some e)
         | Inr t \<Rightarrow>
            (case latlng m of
               None \<Rightarrow> (theMap1, Some TypeError)
             | Some pos \<Rightarrow> (theMap1, None)))"

text \<open>\<open>marker.bindPopup(html)\<close> on the marker at position \<open>i\<close> of the map's markers.\<close>

definition bindPopup :: "nat \<Rightarrow> string \<Rightarrow> 'n page \<Rightarrow> 'n page" where
  "bindPopup i html theMap =
     (if i < length (markers theMap)
      then theMap\<lparr>markers := (markers theMap)[i := (markers theMap ! i)\<lparr>popup := Some html\<rparr>]\<rparr>
      else theMap)"

subsection \<open>What both variants share\<close>

text \<open>
  \<open>xs.forEach(f)\<close> over a state: the callback runs on each element in order; an exception
  in the callback ends the loop and leaves the state as it is at that moment.
\<close>

fun forEach :: "('a \<Rightarrow> 's \<Rightarrow> 's \<times> error option) \<Rightarrow> 'a list \<Rightarrow> 's \<Rightarrow> 's \<times> error option" where
  "forEach f [] s = (s, None)"
| "forEach f (x # xs) s =
     (case f x s of (s', None) \<Rightarrow> forEach f xs s' | (s', Some e) \<Rightarrow> (s', Some e))"

text \<open>
  \<open>response.data.raingages.edges\<close>, which must be an array for \<open>.forEach\<close> to be callable:
  on any other value \<open>forEach\<close> is \<open>undefined\<close> or a parsed value, and the call throws.
\<close>

definition edges_of :: "'n jsval \<Rightarrow> error + 'n jsval list" where
  "edges_of response =
     andThen (getprop response ''data'') (\<lambda>d.
     andThen (getprop d ''raingages'') (\<lambda>r.
     andThen (getprop r ''edges'') (\<lambda>es.
       case es of JArr gs \<Rightarrow> Inr gs | _ \<Rightarrow> Inl TypeError)))"

text \<open>\<open>var coords = [g.node.latitude, g.node.longitude]\<close>\<close>

definition coords_of :: "'n jsval \<Rightarrow> error + 'n jsval list" where
  "coords_of g =
     andThen (getprop g ''node'') (\<lambda>n1.
     andThen (getprop n1 ''latitude'') (\<lambda>lat.
     andThen (getprop g ''node'') (\<lambda>n2.
     andThen (getprop n2 ''longitude'') (\<lambda>lon.
       Inr [lat, lon]))))"

definition baseUrl :: string where
  "baseUrl = ''http://127.0.0.1:8000/api/graphql?query=''"

definition raingageQry :: string where
  "raingageQry = ''{ raingages { edges { node { id latitude longitude code name } } } }''"

definition tileUrl :: string where
  "tileUrl = ''https://api.tiles.mapbox.com/v4/{id}/{z}/{x}/{y}.png?access_token=pk.eyJ1IjoiYWNhdGVqciIsImEiOiJDTFpxOWpJIn0.1gwlWR5IcLfCAbBs0Ue27g''"

text \<open>
  The first statements of the \<open>ready\<close> handler of either variant: the map is made in the
  container, which can throw, and centred; the tile layer is added.
\<close>

definition make_map :: "'n page \<Rightarrow> 'n page \<times> error option" where
  "make_map p =
     (case Lmap p of
        (p0, Some e) \<Rightarrow> (p0, Some e)
      | (p0, None) \<Rightarrow>
          (let p1 = p0\<lparr>view := Some ((''31.8197497'', ''-110.8742436''), ''10.5'')\<rparr>;
               p2 = p1\<lparr>tiles := tiles p1 @ [tileUrl]\<rparr>
           in (p2, None)))"

text \<open>\<open>$.getJSON(url)\<close>: the request is sent.\<close>

definition getJSON :: "string \<Rightarrow> 'n page \<Rightarrow> 'n page" where
  "getJSON url p = p\<lparr>json_requests := json_requests p @ [url]\<rparr>"

subsection \<open>The widget of static/js/application.js\<close>

text \<open>The body of the \<open>forEach\<close> callback.\<close>

definition app_each ::
  "(string \<Rightarrow> bool) \<Rightarrow> ('n \<Rightarrow> string) \<Rightarrow> 'n jsval \<Rightarrow> 'n page \<Rightarrow> 'n page \<times> error option" where
  "app_each numeric ns g theMap =
     (case coords_of g of
        Inl e \<Rightarrow> (theMap, Some e)
      | Inr coords \<Rightarrow>
         (case Lmarker numeric ns coords JUndefined of
            Inl e \<Rightarrow> (theMap, Some e)
          | Inr marker \<Rightarrow> addTo ns marker theMap))"

text \<open>The \<open>.done\<close> callback.\<close>

definition app_done ::
  "(string \<Rightarrow> bool) \<Rightarrow> ('n \<Rightarrow> string) \<Rightarrow> 'n jsval \<Rightarrow> 'n page \<Rightarrow> 'n page \<times> error option" where
  "app_done numeric ns response p =
     (case edges_of response of
        Inl e \<Rightarrow> (p, Some e)
      | Inr gs \<Rightarrow> forEach (app_each numeric ns) gs p)"

text \<open>
  The \<open>$(document).ready\<close> handler: the map is made, and the request is sent; an exception
  ends the handler where it is thrown.
\<close>

definition app_ready :: "'n page \<Rightarrow> 'n page \<times> error option" where
  "app_ready p =
     (case make_map p of
        (p2, Some e) \<Rightarrow> (p2, Some e)
      | (p2, None) \<Rightarrow> (getJSON (baseUrl @ raingageQry) p2, None))"

subsection \<open>The widget of unnamed/part_000\<close>

text \<open>\<open>gage.node.k\<close>\<close>

definition field :: "'n jsval \<Rightarrow> string \<Rightarrow> error + 'n jsval" where
  "field gage k = andThen (getprop gage ''node'') (\<lambda>n. getprop n k)"

text \<open>
  \<open>markerPopup(gage)\<close>: \<open>html\<close> starts empty and grows by three \<open>+=\<close>, each a chain of
  concatenations evaluated left to right. \<open>apos\<close> is the single quote where a literal of the
  source begins or ends with one.
\<close>

definition apos :: string where
  "apos = [CHR 0x27]"

definition markerPopup :: "('n \<Rightarrow> string) \<Rightarrow> 'n jsval \<Rightarrow> error + string" where
  "markerPopup ns gage =
     (let html = []
      in andThen (field gage ''id'') (\<lambda>i.
         andThen (plus_str ns (''<div><a id='' @ apos) i) (\<lambda>a1.
         andThen (field gage ''name'') (\<lambda>n1.
         andThen (plus_str ns (a1 @ apos @ '' href='#' class='gage-popup' data-name='' @ apos) n1) (\<lambda>a2.
         andThen (field gage ''name'') (\<lambda>n2.
         andThen (plus_str ns (a2 @ apos @ ''>'') n2) (\<lambda>a3.
         let html = html @ (a3 @ ''</a></div>'')
         in andThen (field gage ''latitude'') (\<lambda>lat.
            andThen (plus_str ns ''<div>Latitude: '' lat) (\<lambda>b1.
            let html = html @ (b1 @ ''</div>'')
            in andThen (field gage ''longitude'') (\<lambda>lon.
               andThen (plus_str ns ''<div>Latitude: '' lon) (\<lambda>c1.
               let html = html @ (c1 @ ''</div>'')
               in Inr html)))))))))))"

text \<open>
  The body of the \<open>forEach\<close> callback: the coordinates, the options with the title, the
  marker made and added to the map, and then the popup built and bound to that marker.
\<close>

definition part0_each ::
  "(string \<Rightarrow> bool) \<Rightarrow> ('n \<Rightarrow> string) \<Rightarrow> 'n jsval \<Rightarrow> 'n page \<Rightarrow> 'n page \<times> error option" where
  "part0_each numeric ns g theMap =
     (case coords_of g of
        Inl e \<Rightarrow> (theMap, Some e)
      | Inr coords \<Rightarrow>
         (case field g ''name'' of
            Inl e \<Rightarrow> (theMap, Some e)
          | Inr title \<Rightarrow>
             (let markerAttributes = JObj [(''title'', title)]
              in case Lmarker numeric ns coords markerAttributes of
                   Inl e \<Rightarrow> (theMap, Some e)
                 | Inr m \<Rightarrow>
                    (let marker = length (markers theMap)
                     in case addTo ns m theMap of
                          (theMap1, Some e) \<Rightarrow> (theMap1, Some e)
                        | (theMap1, None) \<Rightarrow>
                           (case markerPopup ns g of
                              Inl e \<Rightarrow> (theMap1, Some e)
                            | Inr html \<Rightarrow> (bindPopup marker html theMap1, None))))))"

definition part0_done ::
  "(string \<Rightarrow> bool) \<Rightarrow> ('n \<Rightarrow> string) \<Rightarrow> 'n jsval \<Rightarrow> 'n page \<Rightarrow> 'n page \<times> error option" where
  "part0_done numeric ns response p =
     (case edges_of response of
        Inl e \<Rightarrow> (p, Some e)
      | Inr gs \<Rightarrow> forEach (part0_each numeric ns) gs p)"

text \<open>
  The \<open>ready\<close> handler of this variant: the map is made, the request is sent, and the
  delegated click handler for \<open>.gage-popup\<close> is registered on \<open>body\<close>; an exception ends the
  handler where it is thrown.
\<close>

definition part0_ready :: "'n page \<Rightarrow> 'n page \<times> error option" where
  "part0_ready p =
     (case make_map p of
        (p2, Some e) \<Rightarrow> (p2, Some e)
      | (p2, None) \<Rightarrow>
          (let p3 = getJSON (baseUrl @ raingageQry) p2
           in (p3\<lparr>click_bound := True\<rparr>, None)))"

text \<open>
  The click handler. The clicked element is given by what \<open>$(this).data('name')\<close> returns
  for it. \<open>$('#gage-name').html(s)\<close> replaces the content of the element, when there is
  one, by what \<open>s\<close> parses to. The handler empties the element, then evaluates
  \<open>'Gage: ' + $(this).data('name')\<close>, sets the content and returns \<open>false\<close>; if the
  concatenation throws, the element stays empty and nothing is returned.
\<close>

record 'n element =
  data_name :: "'n jsval"

definition set_html :: "string \<Rightarrow> 'n page \<Rightarrow> 'n page" where
  "set_html s p = p\<lparr>gage_name := map_option (\<lambda>_. Parsed s) (gage_name p)\<rparr>"

definition gage_popup_click ::
  "('n \<Rightarrow> string) \<Rightarrow> 'n element \<Rightarrow> 'n page \<Rightarrow> 'n page \<times> (error + bool)" where
  "gage_popup_click ns this p =
     (let p1 = set_html [] p
      in case plus_str ns ''Gage: '' (data_name this) of
           Inl e \<Rightarrow> (p1, Inl e)
         | Inr s \<Rightarrow> (set_html s p1, Inr False))"

section \<open>The scraper pipeline\<close>

text \<open>
  The station list loader, the metadata scraper and the image downloader are not among the
  source files; the definitions of this section follow sections 3, 4, 6 and 7 of the
  specification.
\<close>

type_synonym StationId = string

text \<open>
  Modelled from the spec: the PhotoRecord of section 3, whose producing code is missing.
  The archive number and the image URL may be absent; the summary and the direction may be
  empty.
\<close>

record PhotoRecord =
  station :: StationId
  archive_number :: "string option"
  image_url :: "string option"
  summary :: string
  direction :: string

text \<open>
  Modelled from the spec: one element of a station page matching the structural marker
  (section 4.2, steps 3 and 4), whose parsing code is missing. Each nested sub-element is
  there or not.
\<close>

record photo_entry =
  entry_archive :: "string option"
  img_ref :: "string option"
  caption :: "string option"
  heading :: "string option"

text \<open>
  Modelled from the spec: the outcome of a page fetch (section 4.2, step 2), whose code is
  missing: a network failure (which includes a timeout), a non-success status, or a page,
  given by its elements that match the structural marker, in document order.
\<close>

datatype fetch_result = NetworkFailure | NonSuccess nat | Page "photo_entry list"

datatype run_error = FileMissing | FileSystemError

text \<open>
  Modelled from the spec: the Station List Loader of section 4.1, whose code is missing.
  \<open>files\<close> gives the records of the delimited file at a path. The loader returns them in
  file order, without validation and without deduplication, and fails when there is no
  readable file.
\<close>

definition load_stations :: "(string \<rightharpoonup> StationId list) \<Rightarrow> string \<Rightarrow> run_error + StationId list" where
  "load_stations files path = (case files path of None \<Rightarrow> Inl FileMissing | Some ids \<Rightarrow> Inr ids)"

text \<open>
  Modelled from the spec: the state of a scrape run (section 4.2), whose code is missing:
  the URLs of the page fetches attempted, the stations logged as failed, and the records
  accumulated, each oldest first.
\<close>

record scrape_state =
  fetches :: "string list"
  failed :: "StationId list"
  records :: "PhotoRecord list"

text \<open>
  Modelled from the spec: the page URL of section 4.2, step 1 and section 6, whose code is
  missing: the fixed base URL followed by the station identifier.
\<close>

definition page_url :: "string \<Rightarrow> StationId \<Rightarrow> string" where
  "page_url base sid = base @ sid"

text \<open>
  Modelled from the spec: the extraction of section 4.2, step 4, whose code is missing: a
  missing nested element gives an absent or empty field, never an abort.
\<close>

definition extract_record :: "StationId \<Rightarrow> photo_entry \<Rightarrow> PhotoRecord" where
  "extract_record sid e =
     \<lparr>station = sid,
      archive_number = entry_archive e,
      image_url = img_ref e,
      summary = (case caption e of None \<Rightarrow> [] | Some s \<Rightarrow> s),
      direction = (case heading e of None \<Rightarrow> [] | Some s \<Rightarrow> s)\<rparr>"

text \<open>
  Modelled from the spec: the steps 1 to 5 of section 4.2 for one station, whose code is
  missing. The fetch is attempted; on a network failure or a non-success status the
  station is logged and nothing is appended; on a page one record per matching element is
  appended.
\<close>

definition scrape_station ::
  "(string \<Rightarrow> fetch_result) \<Rightarrow> string \<Rightarrow> StationId \<Rightarrow> scrape_state \<Rightarrow> scrape_state" where
  "scrape_station upstream base sid st =
     (let url = page_url base sid;
          st1 = st\<lparr>fetches := fetches st @ [url]\<rparr>
      in case upstream url of
           NetworkFailure \<Rightarrow> st1\<lparr>failed := failed st1 @ [sid]\<rparr>
         | NonSuccess code \<Rightarrow> st1\<lparr>failed := failed st1 @ [sid]\<rparr>
         | Page entries \<Rightarrow> st1\<lparr>records := records st1 @ map (extract_record sid) entries\<rparr>)"

text \<open>
  Modelled from the spec: the loop of section 4.2 over the loaded sequence, strictly in
  order, whose code is missing.
\<close>

definition scrape_from ::
  "(string \<Rightarrow> fetch_result) \<Rightarrow> string \<Rightarrow> StationId list \<Rightarrow> scrape_state \<Rightarrow> scrape_state" where
  "scrape_from upstream base ids st = fold (scrape_station upstream base) ids st"

definition scrape :: "(string \<Rightarrow> fetch_result) \<Rightarrow> string \<Rightarrow> StationId list \<Rightarrow> scrape_state" where
  "scrape upstream base ids = scrape_from upstream base ids \<lparr>fetches = [], failed = [], records = []\<rparr>"

text \<open>
  Modelled from the spec: a run of the Metadata Scraper (sections 4.1, 4.2 and 7), whose
  code is missing: the station list is loaded, every station is scraped, and the
  accumulated sequence is written to the MetadataStore. A missing station file and a
  failing write are the errors that reach the caller; the result is the state of the run,
  whose records are the content of the MetadataStore.
\<close>

definition run_scraper ::
  "(string \<rightharpoonup> StationId list) \<Rightarrow> string \<Rightarrow> (string \<Rightarrow> fetch_result) \<Rightarrow> string \<Rightarrow> bool
     \<Rightarrow> run_error + scrape_state" where
  "run_scraper files path upstream base store_writable =
     andThen (load_stations files path) (\<lambda>ids.
       let st = scrape upstream base ids
       in if store_writable then Inr st else Inl FileSystemError)"

text \<open>
  Modelled from the spec: the outcome of an image fetch and the state of a download run
  (section 4.3), whose code is missing: the URLs fetched, the records whose fetch failed,
  and the files written, by station directory and name.
\<close>

datatype http_result = FetchFailed | Body string

record download_state =
  http_calls :: "string list"
  fetch_failures :: "PhotoRecord list"
  written :: "(StationId \<times> string) \<rightharpoonup> string"

text \<open>
  Modelled from the spec: the well-formedness check of section 4.3, step 3, whose code is
  missing. \<open>resolve\<close> gives the absolute URL of a reference, if it has one. The result is
  the URL to fetch, or \<open>None\<close> when the reference is absent, empty or not resolvable.
\<close>

definition usable_url :: "(string \<Rightarrow> string option) \<Rightarrow> PhotoRecord \<Rightarrow> string option" where
  "usable_url resolve r =
     (case image_url r of
        None \<Rightarrow> None
      | Some u \<Rightarrow> if u = [] then None else resolve u)"

text \<open>Modelled from the spec: the final path segment of a URL (section 4.3, step 3).\<close>

definition last_segment :: "string \<Rightarrow> string" where
  "last_segment url = rev (takeWhile (\<lambda>c. c \<noteq> CHR ''/'') (rev url))"

text \<open>
  Modelled from the spec: section 4.3, steps 3 and 4 for one record, whose code is missing.
  A record without a usable URL is skipped. Otherwise the URL is fetched; a failed fetch is
  logged and is not an error; the body is written under the final path segment, and a
  failing write is a filesystem error.
\<close>

definition download_record ::
  "(string \<Rightarrow> string option) \<Rightarrow> (string \<Rightarrow> http_result) \<Rightarrow> (StationId \<Rightarrow> string \<Rightarrow> bool)
     \<Rightarrow> PhotoRecord \<Rightarrow> download_state \<Rightarrow> run_error + download_state" where
  "download_record resolve http can_write r st =
     (case usable_url resolve r of
        None \<Rightarrow> Inr st
      | Some url \<Rightarrow>
         (let st1 = st\<lparr>http_calls := http_calls st @ [url]\<rparr>
          in case http url of
               FetchFailed \<Rightarrow> Inr (st1\<lparr>fetch_failures := fetch_failures st1 @ [r]\<rparr>)
             | Body b \<Rightarrow>
                 if can_write (station r) (last_segment url)
                 then Inr (st1\<lparr>written := (written st1)((station r, last_segment url) \<mapsto> b)\<rparr>)
                 else Inl FileSystemError))"

text \<open>
  Modelled from the spec: the loop of section 4.3 over the records of the MetadataStore, in
  order, whose code is missing. A filesystem error halts it.
\<close>

fun download_all ::
  "(string \<Rightarrow> string option) \<Rightarrow> (string \<Rightarrow> http_result) \<Rightarrow> (StationId \<Rightarrow> string \<Rightarrow> bool)
     \<Rightarrow> PhotoRecord list \<Rightarrow> download_state \<Rightarrow> run_error + download_state" where
  "download_all resolve http can_write [] st = Inr st"
| "download_all resolve http can_write (r # rs) st =
     andThen (download_record resolve http can_write r st)
       (download_all resolve http can_write rs)"

section \<open>Notions the properties are stated with\<close>

text \<open>The value of \<open>v.k\<close> where reading it does not throw, \<open>undefined\<close> otherwise.\<close>

definition the_prop :: "'n jsval \<Rightarrow> string \<Rightarrow> 'n jsval" where
  "the_prop v k = (case getprop v k of Inl e \<Rightarrow> JUndefined | Inr x \<Rightarrow> x)"

text \<open>An edge has a node: \<open>g.node\<close> is neither \<open>undefined\<close> nor \<open>null\<close>.\<close>

definition has_node :: "'n jsval \<Rightarrow> bool" where
  "has_node g = (case getprop g ''node'' of
                   Inl e \<Rightarrow> False
                 | Inr n \<Rightarrow> n \<noteq> JUndefined \<and> n \<noteq> JNull)"

text \<open>The coordinate pair of an edge's node.\<close>

definition node_coords :: "'n jsval \<Rightarrow> 'n jsval list" where
  "node_coords g =
     [the_prop (the_prop g ''node'') ''latitude'', the_prop (the_prop g ''node'') ''longitude'']"

text \<open>A value has a string form: converting it does not throw.\<close>

definition printable :: "('n \<Rightarrow> string) \<Rightarrow> 'n jsval \<Rightarrow> bool" where
  "printable ns v = (case ToString ns v of Inl e \<Rightarrow> False | Inr s \<Rightarrow> True)"

definition str_of :: "('n \<Rightarrow> string) \<Rightarrow> 'n jsval \<Rightarrow> string" where
  "str_of ns v = (case ToString ns v of Inl e \<Rightarrow> [] | Inr s \<Rightarrow> s)"

text \<open>The four fields of the node that the popup shows all have a string form.\<close>

definition popup_fields :: "string list" where
  "popup_fields = [''id'', ''name'', ''latitude'', ''longitude'']"

definition fields_printable :: "('n \<Rightarrow> string) \<Rightarrow> 'n jsval \<Rightarrow> bool" where
  "fields_printable ns g =
     list_all (\<lambda>k. printable ns (the_prop (the_prop g ''node'') k)) popup_fields"

text \<open>
  A gage record: an edge with a node whose \<open>id\<close>, \<open>name\<close>, \<open>latitude\<close> and \<open>longitude\<close> have
  a string form, as every JSON string, number, boolean and \<open>null\<close> has.
\<close>

definition gage_record :: "('n \<Rightarrow> string) \<Rightarrow> 'n jsval \<Rightarrow> bool" where
  "gage_record ns g = (has_node g \<and> fields_printable ns g)"

definition scalar :: "'n jsval \<Rightarrow> bool" where
  "scalar v = (case v of JArr vs \<Rightarrow> False | JObj kvs \<Rightarrow> False | _ \<Rightarrow> True)"

text \<open>The rendering of the field \<open>k\<close> of the node of \<open>g\<close>.\<close>

definition shown :: "('n \<Rightarrow> string) \<Rightarrow> 'n jsval \<Rightarrow> string \<Rightarrow> string" where
  "shown ns g k = str_of ns (the_prop (the_prop g ''node'') k)"

text \<open>
  A page on which nothing has happened yet, with an unused map container and an empty
  \<open>#gage-name\<close> element.
\<close>

definition blank_page :: "'n page" where
  "blank_page = \<lparr>themap = Unused, view = None, tiles = [], markers = [], json_requests = [],
                  click_bound = False, gage_name = Some (Parsed [])\<rparr>"

text \<open>
  Sample data. In the samples a number is given by the string the engine prints for it, so
  the conversion of numbers is the identity.
\<close>

definition gage_node :: "string \<Rightarrow> string \<Rightarrow> string \<Rightarrow> string \<Rightarrow> string jsval \<Rightarrow> string jsval" where
  "gage_node i lat lon c nm =
     JObj [(''node'', JObj [(''id'', JStr i), (''latitude'', JNum lat), (''longitude'', JNum lon),
                            (''code'', JStr c), (''name'', nm)])]"

definition response_of :: "string jsval list \<Rightarrow> string jsval" where
  "response_of gs = JObj [(''data'', JObj [(''raingages'', JObj [(''edges'', JArr gs)])])]"

definition two_gages :: "string jsval" where
  "two_gages = response_of
     [gage_node ''UmFpbjox'' ''31.81'' ''-110.85'' ''RG1'' (JStr ''Gage 1''),
      gage_node ''UmFpbjoy'' ''31.72'' ''-110.9'' ''RG2'' (JStr ''Gage 2'')]"

text \<open>The popup of \<open>g\<close> is built and contains the string \<open>w\<close>.\<close>

definition popup_contains :: "('n \<Rightarrow> string) \<Rightarrow> 'n jsval \<Rightarrow> string \<Rightarrow> bool" where
  "popup_contains ns g w = (case markerPopup ns g of Inl e \<Rightarrow> False | Inr html \<Rightarrow> sublist w html)"

text \<open>
  The response as data, read without the widget's code: the own property \<open>k\<close> of an object,
  \<open>undefined\<close> where there is none; the array under \<open>data.raingages.edges\<close>, if there is
  one; the edges of a response, none when there is no such array.
\<close>

definition own :: "'n jsval \<Rightarrow> string \<Rightarrow> 'n jsval" where
  "own v k =
     (case v of
        JObj kvs \<Rightarrow> (case map_of kvs k of None \<Rightarrow> JUndefined | Some x \<Rightarrow> x)
      | _ \<Rightarrow> JUndefined)"

definition response_edges :: "'n jsval \<Rightarrow> 'n jsval list option" where
  "response_edges response =
     (case own (own (own response ''data'') ''raingages'') ''edges'' of
        JArr gs \<Rightarrow> Some gs
      | _ \<Rightarrow> None)"

definition edges_in :: "'n jsval \<Rightarrow> 'n jsval list" where
  "edges_in response = (case response_edges response of None \<Rightarrow> [] | Some gs \<Rightarrow> gs)"

text \<open>
  A gage record with a place: an edge whose node is an object with a JSON number as
  latitude and as longitude. In a plain gage record the id and the name are, besides,
  not objects or arrays.
\<close>

definition is_object :: "'n jsval \<Rightarrow> bool" where
  "is_object v = (case v of JObj kvs \<Rightarrow> True | _ \<Rightarrow> False)"

definition is_number :: "'n jsval \<Rightarrow> bool" where
  "is_number v = (case v of JNum n \<Rightarrow> True | _ \<Rightarrow> False)"

definition located_gage :: "'n jsval \<Rightarrow> bool" where
  "located_gage g =
     (is_object (own g ''node'')
      \<and> is_number (own (own g ''node'') ''latitude'')
      \<and> is_number (own (own g ''node'') ''longitude''))"

definition plain_gage :: "'n jsval \<Rightarrow> bool" where
  "plain_gage g =
     (located_gage g \<and> scalar (own (own g ''node'') ''id'') \<and> scalar (own (own g ''node'') ''name''))"

text \<open>The coordinate pair \<open>[latitude, longitude]\<close> of the node of an edge.\<close>

definition gage_position :: "'n jsval \<Rightarrow> 'n jsval list" where
  "gage_position g = [own (own g ''node'') ''latitude'', own (own g ''node'') ''longitude'']"

text \<open>The HTML of the popup of an edge, from the renderings of the fields of its node.\<close>

definition popup_text :: "('n \<Rightarrow> string) \<Rightarrow> 'n jsval \<Rightarrow> string" where
  "popup_text ns g =
     ''<div><a id='' @ apos @ shown ns g ''id'' @ apos
     @ '' href='#' class='gage-popup' data-name='' @ apos @ shown ns g ''name'' @ apos
     @ ''>'' @ shown ns g ''name'' @ ''</a></div>''
     @ ''<div>Latitude: '' @ shown ns g ''latitude'' @ ''</div>''
     @ ''<div>Latitude: '' @ shown ns g ''longitude'' @ ''</div>''"

text \<open>
  The position the library makes of the coordinates of an edge, if any; the marker of
  application.js for an edge, without options and popup; and the marker of part_000 for
  it, with the name of the node as title and, when it has a position, with the popup.
\<close>

definition position :: "(string \<Rightarrow> bool) \<Rightarrow> ('n \<Rightarrow> string) \<Rightarrow> 'n jsval \<Rightarrow> 'n jsval list option" where
  "position numeric ns g =
     (case toLatLng numeric ns (gage_position g) of Inl e \<Rightarrow> None | Inr pos \<Rightarrow> pos)"

definition plain_marker :: "(string \<Rightarrow> bool) \<Rightarrow> ('n \<Rightarrow> string) \<Rightarrow> 'n jsval \<Rightarrow> 'n marker" where
  "plain_marker numeric ns g =
     \<lparr>latlng = position numeric ns g, options = JUndefined, popup = None\<rparr>"

definition titled_marker :: "(string \<Rightarrow> bool) \<Rightarrow> ('n \<Rightarrow> string) \<Rightarrow> 'n jsval \<Rightarrow> 'n marker" where
  "titled_marker numeric ns g =
     \<lparr>latlng = position numeric ns g,
      options = JObj [(''title'', own (own g ''node'') ''name'')],
      popup = (if position numeric ns g = None then None else Some (popup_text ns g))\<rparr>"

text \<open>
  What becomes of an edge, read off the data: how many markers it gets registered, none or
  one, and the exception that ends the loop at it, if any. Reading the coordinates of an
  edge that is \<open>undefined\<close> or \<open>null\<close>, or whose node is, throws a TypeError; a pair of
  coordinates that the library rejects throws the library's error; a pair of which the
  library makes no position gets a marker registered and then throws a TypeError.
\<close>

definition nullish :: "'n jsval \<Rightarrow> bool" where
  "nullish v = (v = JUndefined \<or> v = JNull)"

definition edge_fate ::
  "(string \<Rightarrow> bool) \<Rightarrow> ('n \<Rightarrow> string) \<Rightarrow> 'n jsval \<Rightarrow> nat \<times> error option" where
  "edge_fate numeric ns g =
     (if nullish g \<or> nullish (own g ''node'') then (0, Some TypeError)
      else case toLatLng numeric ns (gage_position g) of
             Inl e \<Rightarrow> (0, Some e)
           | Inr None \<Rightarrow> (1, Some TypeError)
           | Inr (Some pos) \<Rightarrow> (1, None))"

text \<open>
  What becomes of a list of edges, and of a response: the number of its first edges that
  get a marker registered, and the exception that ends the callback, if any.
\<close>

fun edges_fate ::
  "(string \<Rightarrow> bool) \<Rightarrow> ('n \<Rightarrow> string) \<Rightarrow> 'n jsval list \<Rightarrow> nat \<times> error option" where
  "edges_fate numeric ns [] = (0, None)"
| "edges_fate numeric ns (g # gs) =
     (case edge_fate numeric ns g of
        (k, Some e) \<Rightarrow> (k, Some e)
      | (k, None) \<Rightarrow> (case edges_fate numeric ns gs of (n, r) \<Rightarrow> (k + n, r)))"

definition response_fate ::
  "(string \<Rightarrow> bool) \<Rightarrow> ('n \<Rightarrow> string) \<Rightarrow> 'n jsval \<Rightarrow> nat \<times> error option" where
  "response_fate numeric ns response =
     (case response_edges response of
        None \<Rightarrow> (0, Some TypeError)
      | Some gs \<Rightarrow> edges_fate numeric ns gs)"

text \<open>
  In the samples no coordinate is a string, so that the engine's test of strings is never
  consulted; \<open>digits_only\<close> stands for it.
\<close>

definition digits_only :: "string \<Rightarrow> bool" where
  "digits_only s = (s \<noteq> [] \<and> list_all (\<lambda>c. c \<in> set ''0123456789'') s)"

text \<open>A response whose first gage has no latitude: the field is \<open>null\<close>.\<close>

definition null_latitude_first :: "string jsval" where
  "null_latitude_first = response_of
     [JObj [(''node'', JObj [(''id'', JStr ''UmFpbjox''), (''latitude'', JNull),
                             (''longitude'', JNum ''-110.85''), (''code'', JStr ''RG1''),
                             (''name'', JStr ''Gage 1'')])],
      gage_node ''UmFpbjoy'' ''31.72'' ''-110.9'' ''RG2'' (JStr ''Gage 2'')]"

text \<open>A response whose first gage has a name without a string form.\<close>

definition odd_name_first :: "string jsval" where
  "odd_name_first = response_of
     [gage_node ''UmFpbjox'' ''31.81'' ''-110.85'' ''RG1'' (JObj [(''toString'', JNum ''1'')]),
      gage_node ''UmFpbjoy'' ''31.72'' ''-110.9'' ''RG2'' (JStr ''Gage 2'')]"

text \<open>
  Two values that are the same, or are objects with the same keys in the same order whose
  values are the same except under the key \<open>k\<close>, where they are related by \<open>R\<close>.
\<close>

definition differs_at ::
  "string \<Rightarrow> ('n jsval \<Rightarrow> 'n jsval \<Rightarrow> bool) \<Rightarrow> 'n jsval \<Rightarrow> 'n jsval \<Rightarrow> bool" where
  "differs_at k R a b =
     (a = b \<or>
      (case a of
         JObj xs \<Rightarrow>
           (case b of
              JObj ys \<Rightarrow>
                list_all2 (\<lambda>x y. fst x = fst y \<and>
                                 (if fst x = k then R (snd x) (snd y) else snd x = snd y)) xs ys
            | _ \<Rightarrow> False)
       | _ \<Rightarrow> False))"

text \<open>Two values that are the same, or are arrays with elements related by \<open>R\<close>.\<close>

definition differs_in_elems ::
  "('n jsval \<Rightarrow> 'n jsval \<Rightarrow> bool) \<Rightarrow> 'n jsval \<Rightarrow> 'n jsval \<Rightarrow> bool" where
  "differs_in_elems R a b =
     (a = b \<or>
      (case a of
         JArr xs \<Rightarrow> (case b of JArr ys \<Rightarrow> list_all2 R xs ys | _ \<Rightarrow> False)
       | _ \<Rightarrow> False))"

text \<open>
  Two edges that differ at most in the value of \<open>node.code\<close>, and two responses that
  differ at most in the value of \<open>node.code\<close> of the elements of \<open>data.raingages.edges\<close>.
\<close>

definition edge_code_variant :: "'n jsval \<Rightarrow> 'n jsval \<Rightarrow> bool" where
  "edge_code_variant = differs_at ''node'' (differs_at ''code'' (\<lambda>c c'. True))"

definition code_variant :: "'n jsval \<Rightarrow> 'n jsval \<Rightarrow> bool" where
  "code_variant =
     differs_at ''data'' (differs_at ''raingages'' (differs_at ''edges''
       (differs_in_elems edge_code_variant)))"

definition two_gages_recoded :: "string jsval" where
  "two_gages_recoded = response_of
     [gage_node ''UmFpbjox'' ''31.81'' ''-110.85'' ''X-77'' (JStr ''Gage 1''),
      gage_node ''UmFpbjoy'' ''31.72'' ''-110.9'' '''' (JStr ''Gage 2'')]"

text \<open>The scenario of section 8: two stations, the second of which times out.\<close>

definition scenario_base :: string where
  "scenario_base = ''http://upstream.example/station/''"

definition scenario_files :: "string \<rightharpoonup> StationId list" where
  "scenario_files = [''stations.csv'' \<mapsto> [''101'', ''205'']]"

definition scenario_upstream :: "string \<Rightarrow> fetch_result" where
  "scenario_upstream url =
     (if url = ''http://upstream.example/station/101''
      then Page [\<lparr>entry_archive = Some ''A-1'',
                  img_ref = Some ''http://upstream.example/img/photo1.jpg'',
                  caption = Some ''Looking north'', heading = Some ''N''\<rparr>,
                 \<lparr>entry_archive = None, img_ref = None, caption = None, heading = None\<rparr>]
      else NetworkFailure)"

text \<open>A station list with a duplicate.\<close>

definition duplicate_files :: "string \<rightharpoonup> StationId list" where
  "duplicate_files = [''stations.csv'' \<mapsto> [''101'', ''101'', ''205'']]"

text \<open>A download state in which nothing has happened, and sample resolvers and servers.\<close>

definition idle :: download_state where
  "idle = \<lparr>http_calls = [], fetch_failures = [], written = Map.empty\<rparr>"

definition absolute_only :: "string \<Rightarrow> string option" where
  "absolute_only u = (if prefix ''http://'' u then Some u else None)"

definition photo_server :: "string \<Rightarrow> http_result" where
  "photo_server url = Body ''JPEG''"

definition photo :: "StationId \<Rightarrow> string option \<Rightarrow> PhotoRecord" where
  "photo sid u = \<lparr>station = sid, archive_number = None, image_url = u,
                  summary = [], direction = []\<rparr>"

definition always_writable :: "StationId \<Rightarrow> string \<Rightarrow> bool" where
  "always_writable sid name = True"

section \<open>Basic facts\<close>

lemma andThen_Inr [simp]: "andThen (Inr x) f = f x"
  by (simp add: andThen_def)

lemma andThen_Inl [simp]: "andThen (Inl e) f = Inl e"
  by (simp add: andThen_def)

lemma scalar_printable: "scalar v \<Longrightarrow> printable ns v"
  by (cases v) (simp_all add: scalar_def printable_def)

lemma has_node_getprop:
  assumes "has_node g"
  shows "getprop g ''node'' = Inr (the_prop g ''node'')"
    and "getprop (the_prop g ''node'') k = Inr (the_prop (the_prop g ''node'') k)"
proof -
  from assms obtain n where n: "getprop g ''node'' = Inr n" "n \<noteq> JUndefined" "n \<noteq> JNull"
    by (auto simp: has_node_def split: sum.splits)
  then show "getprop g ''node'' = Inr (the_prop g ''node'')"
    by (simp add: the_prop_def)
  from n have "the_prop g ''node'' = n"
    by (simp add: the_prop_def)
  moreover from n obtain x where "getprop n k = Inr x"
    by (cases n) simp_all
  ultimately show "getprop (the_prop g ''node'') k = Inr (the_prop (the_prop g ''node'') k)"
    by (simp add: the_prop_def)
qed

lemma has_node_field: "has_node g \<Longrightarrow> field g k = Inr (the_prop (the_prop g ''node'') k)"
  by (simp add: field_def has_node_getprop)

lemma has_node_coords: "has_node g \<Longrightarrow> coords_of g = Inr (node_coords g)"
  by (simp add: coords_of_def node_coords_def has_node_getprop)

lemma no_node_field: "\<not> has_node g \<Longrightarrow> field g k = Inl TypeError"
  by (cases g; cases "getprop g ''node''")
     (auto simp: field_def has_node_def split: sum.splits option.splits)

lemma no_node_coords: "\<not> has_node g \<Longrightarrow> coords_of g = Inl TypeError"
  by (cases g; cases "getprop g ''node''")
     (auto simp: coords_of_def has_node_def split: sum.splits option.splits)

lemma printable_ToString: "printable ns v \<Longrightarrow> ToString ns v = Inr (str_of ns v)"
  by (simp add: printable_def str_of_def split: sum.splits)

lemma printable_plus_str: "printable ns v \<Longrightarrow> plus_str ns s v = Inr (s @ str_of ns v)"
  by (simp add: plus_str_def printable_ToString)

lemma ToString_throws:
  "ToString ns v = Inl e \<Longrightarrow> e = TypeError"
  "ToStrings ns vs = Inl e \<Longrightarrow> e = TypeError"
proof (induction ns v and ns vs arbitrary: e and e rule: ToString_ToStrings.induct)
  case (6 ns vs)
  then show ?case
    by (cases "ToStrings ns vs") simp_all
next
  case (9 ns v vs)
  show ?case
  proof (cases "v = JUndefined \<or> v = JNull")
    case True
    with 9 show ?thesis
      by (cases "ToStrings ns vs") auto
  next
    case False
    with 9 show ?thesis
      by (cases "ToString ns v"; cases "ToStrings ns vs") auto
  qed
qed (simp_all split: if_splits)

lemma unprintable_ToString: "\<not> printable ns v \<Longrightarrow> ToString ns v = Inl TypeError"
  by (cases "ToString ns v") (auto simp: printable_def dest: ToString_throws(1))

lemma fields_printable_iff:
  "fields_printable ns g \<longleftrightarrow>
     printable ns (the_prop (the_prop g ''node'') ''id'') \<and>
     printable ns (the_prop (the_prop g ''node'') ''name'') \<and>
     printable ns (the_prop (the_prop g ''node'') ''latitude'') \<and>
     printable ns (the_prop (the_prop g ''node'') ''longitude'')"
  by (simp add: fields_printable_def popup_fields_def)

text \<open>The popup of a gage record, in full.\<close>

lemma markerPopup_record:
  assumes "gage_record ns g"
  shows "markerPopup ns g =
     Inr (''<div><a id='' @ apos @ shown ns g ''id'' @ apos
          @ '' href='#' class='gage-popup' data-name='' @ apos @ shown ns g ''name'' @ apos
          @ ''>'' @ shown ns g ''name'' @ ''</a></div>''
          @ ''<div>Latitude: '' @ shown ns g ''latitude'' @ ''</div>''
          @ ''<div>Latitude: '' @ shown ns g ''longitude'' @ ''</div>'')"
proof -
  from assms have n: "has_node g" and p: "fields_printable ns g"
    by (simp_all add: gage_record_def)
  from p show ?thesis
    unfolding fields_printable_iff markerPopup_def Let_def shown_def
    by (simp add: has_node_field [OF n] printable_plus_str)
qed

text \<open>The response as data and the reads of the widget.\<close>

lemma the_prop_own: "the_prop v k = own v k"
  by (cases v) (simp_all add: the_prop_def own_def)

lemma getprop_own:
  "getprop v k = (if v = JUndefined \<or> v = JNull then Inl TypeError else Inr (own v k))"
  by (cases v) (simp_all add: own_def)

lemma edges_of_response_edges:
  "edges_of response = (case response_edges response of None \<Rightarrow> Inl TypeError | Some gs \<Rightarrow> Inr gs)"
proof -
  have u: "own JUndefined k = JUndefined" "own JNull k = JUndefined" for k
    by (simp_all add: own_def)
  show ?thesis
    unfolding edges_of_def response_edges_def getprop_own
    by (auto simp: u split: jsval.splits)
qed

lemma node_coords_position: "node_coords g = gage_position g"
  by (simp add: node_coords_def gage_position_def the_prop_own)

lemma popup_of_record: "gage_record ns g \<Longrightarrow> markerPopup ns g = Inr (popup_text ns g)"
  unfolding popup_text_def by (rule markerPopup_record)

text \<open>What the callbacks do with one edge.\<close>

lemma addTo_plain:
  "addTo ns \<lparr>latlng = pos, options = JUndefined, popup = None\<rparr> p
     = (p\<lparr>markers := markers p @ [\<lparr>latlng = pos, options = JUndefined, popup = None\<rparr>]\<rparr>,
        if pos = None then Some TypeError else None)"
  by (cases pos) (simp_all add: addTo_def title_option_def Let_def)

lemma addTo_titled:
  "addTo ns \<lparr>latlng = pos, options = JObj [(''title'', t)], popup = None\<rparr> p
     = (p\<lparr>markers := markers p @ [\<lparr>latlng = pos, options = JObj [(''title'', t)], popup = None\<rparr>]\<rparr>,
        if printable ns t \<and> pos \<noteq> None then None else Some TypeError)"
proof (cases "printable ns t")
  case True
  then show ?thesis
    by (cases pos) (simp_all add: addTo_def title_option_def Let_def printable_ToString)
next
  case False
  then show ?thesis
    by (simp add: addTo_def title_option_def Let_def unprintable_ToString)
qed

lemma app_each_no_node: "\<not> has_node g \<Longrightarrow> app_each numeric ns g p = (p, Some TypeError)"
  by (simp add: app_each_def no_node_coords)

lemma part0_each_no_node: "\<not> has_node g \<Longrightarrow> part0_each numeric ns g p = (p, Some TypeError)"
  by (simp add: part0_each_def no_node_coords)

lemma app_each_no_position:
  assumes "has_node g" and "toLatLng numeric ns (gage_position g) = Inl e"
  shows "app_each numeric ns g p = (p, Some e)"
  using assms
  by (simp add: app_each_def has_node_coords node_coords_position Lmarker_def)

lemma part0_each_no_position:
  assumes "has_node g" and "toLatLng numeric ns (gage_position g) = Inl e"
  shows "part0_each numeric ns g p = (p, Some e)"
  using assms
  by (simp add: part0_each_def has_node_coords has_node_field node_coords_position
      Lmarker_def Let_def)

lemma app_each_position:
  assumes "has_node g" and "toLatLng numeric ns (gage_position g) = Inr pos"
  shows "app_each numeric ns g p
     = (p\<lparr>markers := markers p @ [plain_marker numeric ns g]\<rparr>,
        if pos = None then Some TypeError else None)"
  using assms
  by (simp add: app_each_def has_node_coords node_coords_position Lmarker_def addTo_plain
      plain_marker_def position_def)

lemma part0_each_position:
  assumes "has_node g" and "fields_printable ns g"
    and "toLatLng numeric ns (gage_position g) = Inr pos"
  shows "part0_each numeric ns g p
     = (p\<lparr>markers := markers p @ [titled_marker numeric ns g]\<rparr>,
        if pos = None then Some TypeError else None)"
proof -
  from assms(2) have name: "printable ns (own (own g ''node'') ''name'')"
    by (simp add: fields_printable_iff the_prop_own)
  from assms(1,2) have "gage_record ns g"
    by (simp add: gage_record_def)
  then have html: "markerPopup ns g = Inr (popup_text ns g)"
    by (rule popup_of_record)
  show ?thesis
  proof (cases pos)
    case None
    with assms(1,3) name show ?thesis
      by (simp add: part0_each_def has_node_coords has_node_field node_coords_position
          Lmarker_def Let_def addTo_titled the_prop_own titled_marker_def position_def)
  next
    case (Some ll)
    with assms(1,3) name html show ?thesis
      by (simp add: part0_each_def has_node_coords has_node_field node_coords_position
          Lmarker_def Let_def addTo_titled the_prop_own titled_marker_def position_def
          bindPopup_def)
  qed
qed

text \<open>Gage records with a place.\<close>

lemma located_gage_node: "located_gage g \<Longrightarrow> has_node g"
  by (cases g)
     (auto simp: located_gage_def has_node_def own_def is_object_def
       split: jsval.splits option.splits)

lemma located_gage_position:
  "located_gage g \<Longrightarrow> toLatLng numeric ns (gage_position g) = Inr (Some (gage_position g))"
  by (auto simp: located_gage_def gage_position_def toLatLng_def is_number_def
      split: jsval.splits)

lemma number_printable: "is_number v \<Longrightarrow> printable ns v"
  by (cases v) (simp_all add: is_number_def printable_def)

lemma plain_gage_printable: "plain_gage g \<Longrightarrow> fields_printable ns g"
  by (simp add: plain_gage_def located_gage_def fields_printable_iff the_prop_own
      number_printable scalar_printable)

text \<open>The loop.\<close>

lemma forEach_all_ok:
  assumes "\<And>x s. x \<in> set xs \<Longrightarrow> f x s = (s\<lparr>markers := markers s @ [mk x]\<rparr>, None)"
  shows "forEach f xs p = (p\<lparr>markers := markers p @ map mk xs\<rparr>, None)"
  using assms
proof (induction xs arbitrary: p)
  case Nil
  show ?case by simp
next
  case (Cons x xs)
  have "f x p = (p\<lparr>markers := markers p @ [mk x]\<rparr>, None)"
    by (rule Cons.prems) simp
  moreover have "forEach f xs (p\<lparr>markers := markers p @ [mk x]\<rparr>)
      = (p\<lparr>markers := markers p @ [mk x]\<rparr>
           \<lparr>markers := markers (p\<lparr>markers := markers p @ [mk x]\<rparr>) @ map mk xs\<rparr>, None)"
    by (rule Cons.IH) (simp add: Cons.prems)
  ultimately show ?case by simp
qed

lemma forEach_keeps:
  assumes "\<And>x s. h (fst (f x s)) = h s"
  shows "h (fst (forEach f xs s)) = h s"
proof (induction xs arbitrary: s)
  case Nil
  show ?case by simp
next
  case (Cons x xs)
  obtain s' r where step: "f x s = (s', r)"
    by (cases "f x s")
  with assms [of x s] have "h s' = h s" by simp
  with step Cons.IH [of s'] show ?case
    by (cases r) simp_all
qed

lemma addTo_rest: "fst (addTo ns m p) = p\<lparr>markers := markers (fst (addTo ns m p))\<rparr>"
  by (simp add: addTo_def Let_def split: sum.splits option.splits)

lemma app_each_rest:
  "fst (app_each numeric ns g p) = p\<lparr>markers := markers (fst (app_each numeric ns g p))\<rparr>"
proof (cases "coords_of g")
  case (Inl e)
  then show ?thesis by (simp add: app_each_def)
next
  case (Inr coords)
  then show ?thesis
    by (cases "Lmarker numeric ns coords JUndefined")
       (simp_all add: app_each_def addTo_rest [symmetric])
qed

lemma part0_each_rest:
  "fst (part0_each numeric ns g p) = p\<lparr>markers := markers (fst (part0_each numeric ns g p))\<rparr>"
proof (cases "has_node g")
  case False
  then show ?thesis by (simp add: part0_each_no_node)
next
  case True
  show ?thesis
  proof (cases "toLatLng numeric ns (gage_position g)")
    case (Inl e)
    with True show ?thesis by (simp add: part0_each_no_position)
  next
    case (Inr pos)
    let ?m = "\<lparr>latlng = pos, options = JObj [(''title'', the_prop (the_prop g ''node'') ''name'')],
               popup = None\<rparr>"
    obtain q r where a: "addTo ns ?m p = (q, r)"
      by (cases "addTo ns ?m p")
    from addTo_rest [of ns ?m p] a have q: "q = p\<lparr>markers := markers q\<rparr>"
      by simp
    have b: "bindPopup i html q = p\<lparr>markers := markers (bindPopup i html q)\<rparr>" for i html
      by (subst q) (simp add: bindPopup_def)
    from True Inr a q b show ?thesis
      by (cases r; cases "markerPopup ns g")
         (simp_all add: part0_each_def has_node_coords has_node_field node_coords_position
           Lmarker_def Let_def)
  qed
qed

lemma sublist_split_char:
  assumes "c \<notin> set w"
  shows "sublist w (xs @ c # ys) \<longleftrightarrow> sublist w xs \<or> sublist w ys"
proof
  assume "sublist w (xs @ c # ys)"
  then consider "sublist w xs" | "sublist w (c # ys)"
    | w1 w2 where "w = w1 @ w2" "suffix w1 xs" "prefix w2 (c # ys)"
    unfolding sublist_append by blast
  then show "sublist w xs \<or> sublist w ys"
  proof cases
    case 1
    then show ?thesis by simp
  next
    case 2
    then have "prefix w (c # ys) \<or> sublist w ys"
      by (simp add: sublist_Cons_right)
    moreover have "w = []" if "prefix w (c # ys)"
      using that assms by (cases w) auto
    ultimately show ?thesis by auto
  next
    case 3
    from 3(3) assms 3(1) have "w2 = []"
      by (cases w2) auto
    with 3 show ?thesis by auto
  qed
next
  assume "sublist w xs \<or> sublist w ys"
  then show "sublist w (xs @ c # ys)"
    by (auto simp: sublist_append sublist_Cons_right)
qed

lemma Longitude_in_popup:
  assumes "sublist ''Longitude''
     (''<div><a id='' @ apos @ i @ apos
      @ '' href='#' class='gage-popup' data-name='' @ apos @ n @ apos
      @ ''>'' @ n @ ''</a></div>''
      @ ''<div>Latitude: '' @ la @ ''</div>''
      @ ''<div>Latitude: '' @ lo @ ''</div>'')"
  shows "sublist ''Longitude'' i \<or> sublist ''Longitude'' n
       \<or> sublist ''Longitude'' la \<or> sublist ''Longitude'' lo"
proof -
  have q: "CHR 0x27 \<notin> set ''Longitude''" and gt: "CHR ''>'' \<notin> set ''Longitude''"
    and lt: "CHR ''<'' \<notin> set ''Longitude''" and sp: "CHR '' '' \<notin> set ''Longitude''"
    by simp_all
  have eq: "''<div><a id='' @ apos @ i @ apos
      @ '' href='#' class='gage-popup' data-name='' @ apos @ n @ apos
      @ ''>'' @ n @ ''</a></div>''
      @ ''<div>Latitude: '' @ la @ ''</div>''
      @ ''<div>Latitude: '' @ lo @ ''</div>''
    = ''<div><a id='' @ CHR 0x27 # (i @ CHR 0x27 #
        ('' href='#' class='gage-popup' data-name='' @ CHR 0x27 # (n @ CHR 0x27 #
        ([] @ CHR ''>'' # (n @ CHR ''<'' #
        (''/a></div><div>Latitude:'' @ CHR '' '' # (la @ CHR ''<'' #
        (''/div><div>Latitude:'' @ CHR '' '' # (lo @ CHR ''<'' # ''/div>'')))))))))"
    by (simp add: apos_def)
  with assms have "sublist ''Longitude''
      (''<div><a id='' @ CHR 0x27 # (i @ CHR 0x27 #
        ('' href='#' class='gage-popup' data-name='' @ CHR 0x27 # (n @ CHR 0x27 #
        ([] @ CHR ''>'' # (n @ CHR ''<'' #
        (''/a></div><div>Latitude:'' @ CHR '' '' # (la @ CHR ''<'' #
        (''/div><div>Latitude:'' @ CHR '' '' # (lo @ CHR ''<'' # ''/div>''))))))))))"
    by (simp only: eq)
  then have "sublist ''Longitude'' ''<div><a id='' \<or> sublist ''Longitude'' i
      \<or> sublist ''Longitude'' '' href='#' class='gage-popup' data-name=''
      \<or> sublist ''Longitude'' n \<or> sublist ''Longitude'' []
      \<or> sublist ''Longitude'' n \<or> sublist ''Longitude'' ''/a></div><div>Latitude:''
      \<or> sublist ''Longitude'' la \<or> sublist ''Longitude'' ''/div><div>Latitude:''
      \<or> sublist ''Longitude'' lo \<or> sublist ''Longitude'' ''/div>''"
    unfolding sublist_split_char [OF q] sublist_split_char [OF gt]
      sublist_split_char [OF lt] sublist_split_char [OF sp] by blast
  moreover have "\<not> sublist ''Longitude'' ''<div><a id=''"
    by (simp add: sublist_code)
  moreover have "\<not> sublist ''Longitude'' '' href='#' class='gage-popup' data-name=''"
    by (simp add: sublist_code)
  moreover have "\<not> sublist ''Longitude'' ''/a></div><div>Latitude:''"
    by (simp add: sublist_code)
  moreover have "\<not> sublist ''Longitude'' ''/div><div>Latitude:''"
    by (simp add: sublist_code)
  moreover have "\<not> sublist ''Longitude'' ''/div>''"
    by (simp add: sublist_code)
  ultimately show ?thesis by auto
qed

text \<open>
  The two variants on the same edges: as long as the fields of the popup have a string
  form, they register markers for the same edges and end alike.
\<close>

lemma has_node_iff: "has_node g \<longleftrightarrow> \<not> nullish g \<and> \<not> nullish (own g ''node'')"
  by (cases g) (auto simp: has_node_def nullish_def own_def split: option.splits)

lemma edge_step:
  assumes "fields_printable ns g"
  shows "app_each numeric ns g pa
           = (pa\<lparr>markers := markers pa @
                   map (plain_marker numeric ns) (take (fst (edge_fate numeric ns g)) [g])\<rparr>,
              snd (edge_fate numeric ns g))"
    and "part0_each numeric ns g pb
           = (pb\<lparr>markers := markers pb @
                   map (titled_marker numeric ns) (take (fst (edge_fate numeric ns g)) [g])\<rparr>,
              snd (edge_fate numeric ns g))"
proof -
  show "app_each numeric ns g pa
           = (pa\<lparr>markers := markers pa @
                   map (plain_marker numeric ns) (take (fst (edge_fate numeric ns g)) [g])\<rparr>,
              snd (edge_fate numeric ns g))"
  proof (cases "has_node g")
    case False
    then show ?thesis
      by (simp add: app_each_no_node edge_fate_def has_node_iff)
  next
    case True
    then have n: "\<not> (nullish g \<or> nullish (own g ''node''))"
      by (simp add: has_node_iff)
    show ?thesis
    proof (cases "toLatLng numeric ns (gage_position g)")
      case (Inl e)
      with True n show ?thesis
        by (simp add: app_each_no_position edge_fate_def)
    next
      case (Inr pos)
      with True n show ?thesis
        by (cases pos) (simp_all add: app_each_position edge_fate_def)
    qed
  qed
  show "part0_each numeric ns g pb
           = (pb\<lparr>markers := markers pb @
                   map (titled_marker numeric ns) (take (fst (edge_fate numeric ns g)) [g])\<rparr>,
              snd (edge_fate numeric ns g))"
  proof (cases "has_node g")
    case False
    then show ?thesis
      by (simp add: part0_each_no_node edge_fate_def has_node_iff)
  next
    case True
    then have n: "\<not> (nullish g \<or> nullish (own g ''node''))"
      by (simp add: has_node_iff)
    show ?thesis
    proof (cases "toLatLng numeric ns (gage_position g)")
      case (Inl e)
      with True n show ?thesis
        by (simp add: part0_each_no_position edge_fate_def)
    next
      case (Inr pos)
      with True n assms show ?thesis
        by (cases pos) (simp_all add: part0_each_position edge_fate_def)
    qed
  qed
qed

lemma edge_fate_cases:
  "edge_fate numeric ns g = (0, Some TypeError) \<or> (\<exists>e. edge_fate numeric ns g = (0, Some e))
   \<or> edge_fate numeric ns g = (1, Some TypeError) \<or> edge_fate numeric ns g = (1, None)"
  by (auto simp: edge_fate_def split: sum.splits option.splits)

lemma forEach_variants:
  assumes "list_all (fields_printable ns) gs"
  shows "forEach (app_each numeric ns) gs pa
           = (pa\<lparr>markers := markers pa @
                   map (plain_marker numeric ns) (take (fst (edges_fate numeric ns gs)) gs)\<rparr>,
              snd (edges_fate numeric ns gs))
       \<and> forEach (part0_each numeric ns) gs pb
           = (pb\<lparr>markers := markers pb @
                   map (titled_marker numeric ns) (take (fst (edges_fate numeric ns gs)) gs)\<rparr>,
              snd (edges_fate numeric ns gs))"
  using assms
proof (induction gs arbitrary: pa pb)
  case Nil
  show ?case by simp
next
  case (Cons g gs)
  from Cons.prems have g: "fields_printable ns g" and gs: "list_all (fields_printable ns) gs"
    by simp_all
  note step = edge_step [OF g, of numeric]
  from edge_fate_cases [of numeric ns g]
  consider e where "edge_fate numeric ns g = (0, Some e)"
    | "edge_fate numeric ns g = (1, Some TypeError)"
    | "edge_fate numeric ns g = (1, None)"
    by blast
  then show ?case
  proof cases
    case 1
    then show ?thesis
      by (simp add: step)
  next
    case 2
    then show ?thesis
      by (simp add: step)
  next
    case 3
    let ?pa = "pa\<lparr>markers := markers pa @ [plain_marker numeric ns g]\<rparr>"
    let ?pb = "pb\<lparr>markers := markers pb @ [titled_marker numeric ns g]\<rparr>"
    obtain n r where f: "edges_fate numeric ns gs = (n, r)"
      by (cases "edges_fate numeric ns gs")
    from Cons.IH [OF gs, of ?pa ?pb] f
    have "forEach (app_each numeric ns) gs ?pa
          = (?pa\<lparr>markers := markers ?pa @ map (plain_marker numeric ns) (take n gs)\<rparr>, r)"
      and "forEach (part0_each numeric ns) gs ?pb
          = (?pb\<lparr>markers := markers ?pb @ map (titled_marker numeric ns) (take n gs)\<rparr>, r)"
      by simp_all
    with 3 f show ?thesis
      by (simp add: step)
  qed
qed

lemma differs_at_map_of:
  assumes "list_all2 (\<lambda>x y. fst x = fst y \<and>
                              (if fst x = k then R (snd x) (snd y) else snd x = snd y)) xs ys"
  shows "(k' \<noteq> k \<longrightarrow> map_of xs k' = map_of ys k')
       \<and> (map_of xs k = None \<and> map_of ys k = None
          \<or> (\<exists>x y. map_of xs k = Some x \<and> map_of ys k = Some y \<and> R x y))"
  using assms
proof (induction rule: list_all2_induct)
  case Nil
  show ?case by simp
next
  case (Cons x xs y ys)
  then show ?case
    by (cases x; cases y) (auto split: if_splits)
qed

lemma differs_at_other:
  assumes "differs_at k R a b" and "k' \<noteq> k"
  shows "getprop a k' = getprop b k'"
proof (cases "a = b")
  case True
  then show ?thesis by simp
next
  case False
  with assms(1) obtain xs ys where ab: "a = JObj xs" "b = JObj ys"
    and l: "list_all2 (\<lambda>x y. fst x = fst y \<and>
                              (if fst x = k then R (snd x) (snd y) else snd x = snd y)) xs ys"
    by (auto simp: differs_at_def split: jsval.splits)
  from differs_at_map_of [OF l, of k'] assms(2) ab show ?thesis
    by simp
qed

lemma differs_at_key:
  assumes "differs_at k R a b"
  shows "getprop a k = getprop b k
       \<or> (\<exists>x y. getprop a k = Inr x \<and> getprop b k = Inr y \<and> R x y)"
proof (cases "a = b")
  case True
  then show ?thesis by simp
next
  case False
  with assms(1) obtain xs ys where ab: "a = JObj xs" "b = JObj ys"
    and l: "list_all2 (\<lambda>x y. fst x = fst y \<and>
                              (if fst x = k then R (snd x) (snd y) else snd x = snd y)) xs ys"
    by (auto simp: differs_at_def split: jsval.splits)
  from differs_at_map_of [OF l, of k] ab show ?thesis
    by auto
qed

lemma edge_code_variant_field:
  assumes "edge_code_variant g g'" and "k \<noteq> ''code''"
  shows "field g k = field g' k"
proof -
  from assms(1) have "differs_at ''node'' (differs_at ''code'' (\<lambda>c c'. True)) g g'"
    by (simp add: edge_code_variant_def)
  then consider "getprop g ''node'' = getprop g' ''node''"
    | n n' where "getprop g ''node'' = Inr n" "getprop g' ''node'' = Inr n'"
        "differs_at ''code'' (\<lambda>c c'. True) n n'"
    using differs_at_key by blast
  then show ?thesis
  proof cases
    case 1
    then show ?thesis by (simp add: field_def)
  next
    case 2
    from differs_at_other [OF 2(3) assms(2)] 2(1,2) show ?thesis
      by (simp add: field_def)
  qed
qed

lemma edge_code_variant_coords:
  assumes "edge_code_variant g g'"
  shows "coords_of g = coords_of g'"
proof -
  have c: "coords_of h = andThen (field h ''latitude'') (\<lambda>lat.
             andThen (field h ''longitude'') (\<lambda>lon. Inr [lat, lon]))" for h :: "'a jsval"
    by (cases "getprop h ''node''") (simp_all add: coords_of_def field_def)
  show ?thesis
    by (simp add: c edge_code_variant_field [OF assms])
qed

lemma edge_code_variant_popup:
  assumes "edge_code_variant g g'"
  shows "markerPopup ns g = markerPopup ns g'"
  by (simp add: markerPopup_def edge_code_variant_field [OF assms])

lemma edge_code_variant_each:
  assumes "edge_code_variant g g'"
  shows "app_each numeric ns g p = app_each numeric ns g' p"
    and "part0_each numeric ns g p = part0_each numeric ns g' p"
proof -
  have n: "field g ''name'' = field g' ''name''"
    by (rule edge_code_variant_field [OF assms]) simp
  note eqs = edge_code_variant_coords [OF assms] edge_code_variant_popup [OF assms, of ns] n
  show "app_each numeric ns g p = app_each numeric ns g' p"
    unfolding app_each_def eqs ..
  show "part0_each numeric ns g p = part0_each numeric ns g' p"
    unfolding part0_each_def eqs ..
qed

lemma forEach_related:
  assumes "list_all2 (\<lambda>x y. \<forall>s. f x s = f y s) xs ys"
  shows "forEach f xs s = forEach f ys s"
  using assms
proof (induction arbitrary: s rule: list_all2_induct)
  case Nil
  show ?case by simp
next
  case (Cons x xs y ys)
  then show ?case
    by (cases "f y s") (auto split: option.splits)
qed

lemma code_variant_edges:
  assumes "code_variant r r'"
  shows "edges_of r = edges_of r'
       \<or> (\<exists>gs gs'. edges_of r = Inr gs \<and> edges_of r' = Inr gs'
                   \<and> list_all2 edge_code_variant gs gs')"
proof -
  from assms have "differs_at ''data'' (differs_at ''raingages'' (differs_at ''edges''
       (differs_in_elems edge_code_variant))) r r'"
    by (simp add: code_variant_def)
  then consider "getprop r ''data'' = getprop r' ''data''"
    | d d' where "getprop r ''data'' = Inr d" "getprop r' ''data'' = Inr d'"
        "differs_at ''raingages'' (differs_at ''edges'' (differs_in_elems edge_code_variant)) d d'"
    using differs_at_key by blast
  then show ?thesis
  proof cases
    case 1
    then show ?thesis by (simp add: edges_of_def)
  next
    case d: 2
    from d(3) consider "getprop d ''raingages'' = getprop d' ''raingages''"
      | q q' where "getprop d ''raingages'' = Inr q" "getprop d' ''raingages'' = Inr q'"
          "differs_at ''edges'' (differs_in_elems edge_code_variant) q q'"
      using differs_at_key by blast
    then show ?thesis
    proof cases
      case 1
      with d(1,2) show ?thesis by (simp add: edges_of_def)
    next
      case q: 2
      from q(3) consider "getprop q ''edges'' = getprop q' ''edges''"
        | es es' where "getprop q ''edges'' = Inr es" "getprop q' ''edges'' = Inr es'"
            "differs_in_elems edge_code_variant es es'"
        using differs_at_key by blast
      then show ?thesis
      proof cases
        case 1
        with d(1,2) q(1,2) show ?thesis by (simp add: edges_of_def)
      next
        case es: 2
        show ?thesis
        proof (cases "es = es'")
          case True
          with d(1,2) q(1,2) es(1,2) show ?thesis by (simp add: edges_of_def)
        next
          case False
          with es(3) obtain gs gs' where "es = JArr gs" "es' = JArr gs'"
            "list_all2 edge_code_variant gs gs'"
            by (auto simp: differs_in_elems_def split: jsval.splits)
          with d(1,2) q(1,2) es(1,2) show ?thesis by (simp add: edges_of_def)
        qed
      qed
    qed
  qed
qed

lemma scrape_station_fetches:
  "fetches (scrape_station upstream base sid st) = fetches st @ [page_url base sid]"
  by (cases "upstream (page_url base sid)") (simp_all add: scrape_station_def Let_def)

lemma scrape_from_fetches:
  "fetches (scrape_from upstream base ids st) = fetches st @ map (page_url base) ids"
  unfolding scrape_from_def
  by (induction ids arbitrary: st) (simp_all add: scrape_station_fetches)

lemma download_all_append:
  "download_all resolve http can_write (xs @ ys) st
     = andThen (download_all resolve http can_write xs st) (download_all resolve http can_write ys)"
proof (induction xs arbitrary: st)
  case Nil
  show ?case by simp
next
  case (Cons x xs)
  show ?case
    by (cases "download_record resolve http can_write x st") (simp_all add: Cons.IH)
qed

section \<open>The properties\<close>

text \<open>
  C1, as stated, fails: when the latitude of the first of two gage records is \<open>null\<close>, the
  library makes no position of the coordinates, and putting the marker on the map throws a
  TypeError; \<open>forEach\<close> ends, and the second record gets no marker. This is so in both
  variants.
\<close>

theorem null_latitude_stops_markers:
  "length (edges_in null_latitude_first) = 2
   \<and> snd (app_done digits_only id null_latitude_first blank_page) = Some TypeError
   \<and> Some [JNum ''31.72'', JNum ''-110.9'']
        \<notin> set (map latlng (markers (fst (app_done digits_only id null_latitude_first blank_page))))
   \<and> snd (part0_done digits_only id null_latitude_first blank_page) = Some TypeError
   \<and> Some [JNum ''31.72'', JNum ''-110.9'']
        \<notin> set (map latlng (markers (fst (part0_done digits_only id null_latitude_first blank_page))))"
  by (simp add: edges_in_def response_edges_def own_def null_latitude_first_def response_of_def
      gage_node_def app_done_def part0_done_def edges_of_def app_each_def part0_each_def
      coords_of_def field_def Lmarker_def toLatLng_def addTo_def title_option_def
      blank_page_def Let_def)

text \<open>
  C1, amended. When \<open>data.raingages.edges\<close> of the response is an array of \<open>E\<close> gage records
  whose latitude and longitude are numbers, the callback of application.js ends without an
  exception and has added exactly \<open>E\<close> markers to the map, the marker of each record at
  \<open>[latitude, longitude]\<close> of its node, in the order of the edges. When, besides, the id and
  the name of each record are not objects or arrays, the callback of part_000 does the
  same, and each of its markers has the name as title and the popup of its record.
\<close>

theorem markers_per_gage_record:
  assumes "response_edges (response :: 'n jsval) = Some gs"
  shows "(list_all located_gage gs \<longrightarrow>
            app_done numeric ns response p
              = (p\<lparr>markers := markers p @
                     map (\<lambda>g. \<lparr>latlng = Some (gage_position g), options = JUndefined,
                                popup = None\<rparr>) gs\<rparr>, None)
          \<and> length (markers (fst (app_done numeric ns response p)))
              = length (markers p) + length gs)
       \<and> (list_all plain_gage gs \<longrightarrow>
            part0_done numeric ns response p
              = (p\<lparr>markers := markers p @
                     map (\<lambda>g. \<lparr>latlng = Some (gage_position g),
                                options = JObj [(''title'', own (own g ''node'') ''name'')],
                                popup = Some (popup_text ns g)\<rparr>) gs\<rparr>, None)
          \<and> length (markers (fst (part0_done numeric ns response p)))
              = length (markers p) + length gs)"
proof -
  from assms have e: "edges_of response = Inr gs"
    by (simp add: edges_of_response_edges)
  have a: "app_done numeric ns response p
      = (p\<lparr>markers := markers p @
             map (\<lambda>g. \<lparr>latlng = Some (gage_position g), options = JUndefined,
                        popup = None\<rparr>) gs\<rparr>, None)"
    if l: "list_all located_gage gs"
  proof -
    have "forEach (app_each numeric ns) gs p
        = (p\<lparr>markers := markers p @
               map (\<lambda>g. \<lparr>latlng = Some (gage_position g), options = JUndefined,
                          popup = None\<rparr>) gs\<rparr>, None)"
    proof (rule forEach_all_ok)
      fix g and s :: "'n page"
      assume "g \<in> set gs"
      with l have g: "located_gage g"
        by (simp add: list_all_iff)
      note pos = located_gage_position [OF g, of numeric ns]
      from app_each_position [OF located_gage_node [OF g] pos, of s]
      show "app_each numeric ns g s
          = (s\<lparr>markers := markers s @
                 [\<lparr>latlng = Some (gage_position g), options = JUndefined, popup = None\<rparr>]\<rparr>,
             None)"
        by (simp add: plain_marker_def position_def pos)
    qed
    with e show ?thesis
      by (simp add: app_done_def)
  qed
  have b: "part0_done numeric ns response p
      = (p\<lparr>markers := markers p @
             map (\<lambda>g. \<lparr>latlng = Some (gage_position g),
                        options = JObj [(''title'', own (own g ''node'') ''name'')],
                        popup = Some (popup_text ns g)\<rparr>) gs\<rparr>, None)"
    if l: "list_all plain_gage gs"
  proof -
    have "forEach (part0_each numeric ns) gs p
        = (p\<lparr>markers := markers p @
               map (\<lambda>g. \<lparr>latlng = Some (gage_position g),
                          options = JObj [(''title'', own (own g ''node'') ''name'')],
                          popup = Some (popup_text ns g)\<rparr>) gs\<rparr>, None)"
    proof (rule forEach_all_ok)
      fix g and s :: "'n page"
      assume "g \<in> set gs"
      with l have g: "plain_gage g"
        by (simp add: list_all_iff)
      then have lg: "located_gage g"
        by (simp add: plain_gage_def)
      note pos = located_gage_position [OF lg, of numeric ns]
      from part0_each_position [OF located_gage_node [OF lg] plain_gage_printable [OF g] pos, of s]
      show "part0_each numeric ns g s
          = (s\<lparr>markers := markers s @
                 [\<lparr>latlng = Some (gage_position g),
                   options = JObj [(''title'', own (own g ''node'') ''name'')],
                   popup = Some (popup_text ns g)\<rparr>]\<rparr>,
             None)"
        by (simp add: titled_marker_def position_def pos)
    qed
    with e show ?thesis
      by (simp add: part0_done_def)
  qed
  show ?thesis
    by (simp add: a b)
qed

theorem markers_per_gage_record_witness:
  "response_edges two_gages
     = Some [gage_node ''UmFpbjox'' ''31.81'' ''-110.85'' ''RG1'' (JStr ''Gage 1''),
             gage_node ''UmFpbjoy'' ''31.72'' ''-110.9'' ''RG2'' (JStr ''Gage 2'')]
   \<and> map latlng (markers (fst (app_done digits_only id two_gages blank_page)))
       = [Some [JNum ''31.81'', JNum ''-110.85''], Some [JNum ''31.72'', JNum ''-110.9'']]
   \<and> snd (app_done digits_only id two_gages blank_page) = None
   \<and> map latlng (markers (fst (part0_done digits_only id two_gages blank_page)))
       = [Some [JNum ''31.81'', JNum ''-110.85''], Some [JNum ''31.72'', JNum ''-110.9'']]
   \<and> snd (part0_done digits_only id two_gages blank_page) = None"
proof -
  let ?gs = "[gage_node ''UmFpbjox'' ''31.81'' ''-110.85'' ''RG1'' (JStr ''Gage 1''),
              gage_node ''UmFpbjoy'' ''31.72'' ''-110.9'' ''RG2'' (JStr ''Gage 2'')]"
  have e: "response_edges two_gages = Some ?gs"
    by (simp add: response_edges_def own_def two_gages_def response_of_def)
  have r: "list_all plain_gage ?gs"
    by (simp add: plain_gage_def located_gage_def is_object_def is_number_def scalar_def
        own_def gage_node_def)
  then have n: "list_all located_gage ?gs"
    by (simp add: plain_gage_def)
  have c: "map gage_position ?gs
      = [[JNum ''31.81'', JNum ''-110.85''], [JNum ''31.72'', JNum ''-110.9'']]"
    by (simp add: gage_position_def own_def gage_node_def)
  from markers_per_gage_record [OF e, of digits_only id blank_page] r n c e show ?thesis
    by (simp add: blank_page_def)
qed

text \<open>
  C2, as stated, fails: on a page without the element \<open>themap\<close> the \<open>ready\<close> handler of
  either variant ends in the exception that \<open>L.map\<close> throws, before \<open>$.getJSON\<close> is reached,
  and no request is sent.
\<close>

theorem no_container_no_request:
  "app_ready ((blank_page :: string page)\<lparr>themap := Missing\<rparr>)
     = (blank_page\<lparr>themap := Missing\<rparr>, Some LibError)
   \<and> json_requests (fst (app_ready ((blank_page :: string page)\<lparr>themap := Missing\<rparr>))) = []
   \<and> part0_ready ((blank_page :: string page)\<lparr>themap := Missing\<rparr>)
     = (blank_page\<lparr>themap := Missing\<rparr>, Some LibError)
   \<and> json_requests (fst (part0_ready ((blank_page :: string page)\<lparr>themap := Missing\<rparr>))) = []"
  by (simp add: app_ready_def part0_ready_def make_map_def Lmap_def blank_page_def)

text \<open>
  C2, amended. On a page whose element \<open>themap\<close> is there and holds no map yet, the \<open>ready\<close>
  handler of either variant ends without an exception and has called \<open>$.getJSON\<close> exactly
  once, with the fixed URL, the concatenation of the base URL and the query, whatever else
  the state of the page is; the \<open>done\<close> callbacks and the click handler never call it. The
  images that the mapping library loads are not requests of the widget's code.
\<close>

theorem one_request_fixed_url:
  assumes "themap (p :: 'n page) = Unused"
  shows "snd (app_ready p) = None
   \<and> json_requests (fst (app_ready p)) = json_requests p @
      [''http://127.0.0.1:8000/api/graphql?query={ raingages { edges { node { id latitude longitude code name } } } }'']
   \<and> snd (part0_ready p) = None
   \<and> json_requests (fst (part0_ready p)) = json_requests p @
      [''http://127.0.0.1:8000/api/graphql?query={ raingages { edges { node { id latitude longitude code name } } } }'']
   \<and> baseUrl @ raingageQry
      = ''http://127.0.0.1:8000/api/graphql?query={ raingages { edges { node { id latitude longitude code name } } } }''
   \<and> json_requests (fst (app_done numeric ns response (q :: 'n page))) = json_requests q
   \<and> json_requests (fst (part0_done numeric ns response q)) = json_requests q
   \<and> json_requests (fst (gage_popup_click ns this q)) = json_requests q"
proof (intro conjI)
  from assms show "snd (app_ready p) = None"
    by (simp add: app_ready_def make_map_def Lmap_def Let_def)
  from assms show "json_requests (fst (app_ready p)) = json_requests p @
      [''http://127.0.0.1:8000/api/graphql?query={ raingages { edges { node { id latitude longitude code name } } } }'']"
    by (simp add: app_ready_def make_map_def Lmap_def Let_def getJSON_def baseUrl_def
        raingageQry_def)
  from assms show "snd (part0_ready p) = None"
    by (simp add: part0_ready_def make_map_def Lmap_def Let_def)
  from assms show "json_requests (fst (part0_ready p)) = json_requests p @
      [''http://127.0.0.1:8000/api/graphql?query={ raingages { edges { node { id latitude longitude code name } } } }'']"
    by (simp add: part0_ready_def make_map_def Lmap_def Let_def getJSON_def baseUrl_def
        raingageQry_def)
  show "baseUrl @ raingageQry
      = ''http://127.0.0.1:8000/api/graphql?query={ raingages { edges { node { id latitude longitude code name } } } }''"
    by (simp add: baseUrl_def raingageQry_def)
  have a: "json_requests (fst (app_each numeric ns g s)) = json_requests s"
    for g and s :: "'n page"
    by (subst app_each_rest) simp
  show "json_requests (fst (app_done numeric ns response q)) = json_requests q"
    by (cases "edges_of response")
      (simp_all add: app_done_def
        forEach_keeps [where h = json_requests and f = "app_each numeric ns", OF a])
  have b: "json_requests (fst (part0_each numeric ns g s)) = json_requests s"
    for g and s :: "'n page"
    by (subst part0_each_rest) simp
  show "json_requests (fst (part0_done numeric ns response q)) = json_requests q"
    by (cases "edges_of response")
      (simp_all add: part0_done_def
        forEach_keeps [where h = json_requests and f = "part0_each numeric ns", OF b])
  show "json_requests (fst (gage_popup_click ns this q)) = json_requests q"
    by (cases "plus_str ns ''Gage: '' (data_name this)")
      (simp_all add: gage_popup_click_def Let_def set_html_def)
qed

theorem one_request_fixed_url_witness:
  "themap (blank_page :: string page) = Unused
   \<and> app_ready (blank_page :: string page)
     = (blank_page\<lparr>themap := InUse,
                    view := Some ((''31.8197497'', ''-110.8742436''), ''10.5''),
                    tiles := [tileUrl],
                    json_requests :=
                      [''http://127.0.0.1:8000/api/graphql?query={ raingages { edges { node { id latitude longitude code name } } } }'']\<rparr>,
        None)"
proof -
  have u: "themap (blank_page :: string page) = Unused"
    by (simp add: blank_page_def)
  have r: "fst (app_ready (blank_page :: string page))
      = blank_page\<lparr>themap := InUse,
                    view := Some ((''31.8197497'', ''-110.8742436''), ''10.5''),
                    tiles := [tileUrl],
                    json_requests := json_requests (fst (app_ready (blank_page :: string page)))\<rparr>"
    by (simp add: app_ready_def make_map_def Lmap_def blank_page_def getJSON_def Let_def)
  from one_request_fixed_url [OF u, of digits_only id JNull blank_page "\<lparr>data_name = JNull\<rparr>"]
  have "snd (app_ready (blank_page :: string page)) = None"
    and "json_requests (fst (app_ready (blank_page :: string page)))
      = [''http://127.0.0.1:8000/api/graphql?query={ raingages { edges { node { id latitude longitude code name } } } }'']"
    by (simp_all add: blank_page_def)
  with r u show ?thesis
    by (simp add: prod_eq_iff)
qed

text \<open>
  C3, as stated, fails: the popup of a gage whose name is \<open>Longitude\<close> contains the string
  \<open>Longitude\<close>, twice.
\<close>

theorem popup_of_gage_named_Longitude:
  "gage_record id (gage_node ''UmFpbjox'' ''31.81'' ''-110.85'' ''RG1'' (JStr ''Longitude''))
   \<and> popup_contains id (gage_node ''UmFpbjox'' ''31.81'' ''-110.85'' ''RG1'' (JStr ''Longitude''))
        ''Longitude''"
proof -
  let ?g = "gage_node ''UmFpbjox'' ''31.81'' ''-110.85'' ''RG1'' (JStr ''Longitude'')"
  have r: "gage_record id ?g"
    by (simp add: gage_record_def has_node_def fields_printable_def popup_fields_def
        printable_def the_prop_def gage_node_def)
  have "popup_contains id ?g ''Longitude''"
    by (simp add: popup_contains_def markerPopup_def field_def plus_str_def gage_node_def
        apos_def sublist_code)
  with r show ?thesis by simp
qed

text \<open>
  C3, amended. The popup of a gage record is the anchor line followed by two lines that
  both carry the label \<open>Latitude: \<close>, the first with the latitude and the second with the
  longitude of the node; and it contains the string \<open>Longitude\<close> only where the rendering
  of the node's id, name, latitude or longitude contains it.
\<close>

theorem popup_labels:
  assumes "gage_record ns g"
  shows "markerPopup ns g =
     Inr (''<div><a id='' @ apos @ shown ns g ''id'' @ apos
          @ '' href='#' class='gage-popup' data-name='' @ apos @ shown ns g ''name'' @ apos
          @ ''>'' @ shown ns g ''name'' @ ''</a></div>''
          @ ''<div>Latitude: '' @ shown ns g ''latitude'' @ ''</div>''
          @ ''<div>Latitude: '' @ shown ns g ''longitude'' @ ''</div>'')
     \<and> (popup_contains ns g ''Longitude'' \<longrightarrow>
          sublist ''Longitude'' (shown ns g ''id'') \<or> sublist ''Longitude'' (shown ns g ''name'')
        \<or> sublist ''Longitude'' (shown ns g ''latitude'')
        \<or> sublist ''Longitude'' (shown ns g ''longitude''))"
proof (intro conjI impI)
  show "markerPopup ns g =
     Inr (''<div><a id='' @ apos @ shown ns g ''id'' @ apos
          @ '' href='#' class='gage-popup' data-name='' @ apos @ shown ns g ''name'' @ apos
          @ ''>'' @ shown ns g ''name'' @ ''</a></div>''
          @ ''<div>Latitude: '' @ shown ns g ''latitude'' @ ''</div>''
          @ ''<div>Latitude: '' @ shown ns g ''longitude'' @ ''</div>'')"
    using assms by (rule markerPopup_record)
next
  assume "popup_contains ns g ''Longitude''"
  then show "sublist ''Longitude'' (shown ns g ''id'') \<or> sublist ''Longitude'' (shown ns g ''name'')
        \<or> sublist ''Longitude'' (shown ns g ''latitude'')
        \<or> sublist ''Longitude'' (shown ns g ''longitude'')"
    unfolding popup_contains_def markerPopup_record [OF assms]
    by (intro Longitude_in_popup) simp
qed

theorem popup_labels_witness:
  "gage_record id (gage_node ''UmFpbjox'' ''31.81'' ''-110.85'' ''RG1'' (JStr ''Gage 1''))
   \<and> markerPopup id (gage_node ''UmFpbjox'' ''31.81'' ''-110.85'' ''RG1'' (JStr ''Gage 1''))
     = Inr (''<div><a id='' @ apos @ ''UmFpbjox'' @ apos
          @ '' href='#' class='gage-popup' data-name='' @ apos @ ''Gage 1'' @ apos
          @ ''>Gage 1</a></div><div>Latitude: 31.81</div><div>Latitude: -110.85</div>'')
   \<and> \<not> popup_contains id (gage_node ''UmFpbjox'' ''31.81'' ''-110.85'' ''RG1'' (JStr ''Gage 1''))
          ''Longitude''"
proof -
  let ?g = "gage_node ''UmFpbjox'' ''31.81'' ''-110.85'' ''RG1'' (JStr ''Gage 1'')"
  have r: "gage_record id ?g"
    by (simp add: gage_record_def has_node_def fields_printable_def popup_fields_def
        printable_def the_prop_def gage_node_def)
  have s: "shown id ?g ''id'' = ''UmFpbjox''" "shown id ?g ''name'' = ''Gage 1''"
    "shown id ?g ''latitude'' = ''31.81''" "shown id ?g ''longitude'' = ''-110.85''"
    by (simp_all add: shown_def str_of_def the_prop_def gage_node_def)
  have n: "\<not> sublist ''Longitude'' ''UmFpbjox''" "\<not> sublist ''Longitude'' ''Gage 1''"
    "\<not> sublist ''Longitude'' ''31.81''" "\<not> sublist ''Longitude'' ''-110.85''"
    by (simp_all add: sublist_code)
  from popup_labels [OF r] r s n show ?thesis
    by auto
qed

text \<open>
  C4. When the station file holds \<open>N\<close> identifiers, duplicates included, the loader returns
  exactly these, and the scraper attempts exactly \<open>N\<close> page fetches: one for each entry of
  the list, in the order of the list.
\<close>

theorem one_fetch_per_list_entry:
  assumes "files path = Some ids"
  shows "load_stations files path = Inr ids
       \<and> fetches (scrape upstream base ids) = map (page_url base) ids
       \<and> length (fetches (scrape upstream base ids)) = length ids
       \<and> (store_writable \<longrightarrow>
            run_scraper files path upstream base store_writable = Inr (scrape upstream base ids))"
  using assms
  by (simp add: load_stations_def scrape_def scrape_from_fetches run_scraper_def)

theorem one_fetch_per_list_entry_witness:
  "duplicate_files ''stations.csv'' = Some [''101'', ''101'', ''205'']
   \<and> fetches (scrape scenario_upstream scenario_base [''101'', ''101'', ''205''])
     = [''http://upstream.example/station/101'', ''http://upstream.example/station/101'',
        ''http://upstream.example/station/205'']"
proof -
  have f: "duplicate_files ''stations.csv'' = Some [''101'', ''101'', ''205'']"
    by (simp add: duplicate_files_def)
  from one_fetch_per_list_entry [where files = duplicate_files and path = "''stations.csv''"
      and upstream = scenario_upstream and base = scenario_base and store_writable = True, OF f] f
  show ?thesis
    by (simp add: page_url_def scenario_base_def)
qed

text \<open>
  C5. When the page of a station has \<open>K\<close> elements matching the structural marker, exactly
  \<open>K\<close> records are appended for that station, one for each element in order, whatever
  nested sub-elements are missing: a missing image reference gives an absent image URL, a
  missing summary or direction gives an empty one.
\<close>

theorem one_record_per_marker:
  assumes "upstream (page_url base sid) = Page entries"
  shows "length (records (scrape_station upstream base sid st))
           = length (records st) + length entries
       \<and> take (length (records st)) (records (scrape_station upstream base sid st)) = records st
       \<and> list_all2
           (\<lambda>e r. station r = sid
                 \<and> (if img_ref e = None then image_url r = None else image_url r = img_ref e)
                 \<and> (if caption e = None then summary r = [] else Some (summary r) = caption e)
                 \<and> (if heading e = None then direction r = [] else Some (direction r) = heading e))
           entries (drop (length (records st)) (records (scrape_station upstream base sid st)))"
proof -
  have r: "records (scrape_station upstream base sid st) = records st @ map (extract_record sid) entries"
    using assms by (simp add: scrape_station_def Let_def)
  have "list_all2
           (\<lambda>e r. station r = sid
                 \<and> (if img_ref e = None then image_url r = None else image_url r = img_ref e)
                 \<and> (if caption e = None then summary r = [] else Some (summary r) = caption e)
                 \<and> (if heading e = None then direction r = [] else Some (direction r) = heading e))
           entries (map (extract_record sid) entries)"
    by (rule list_all2_all_nthI) (auto simp: extract_record_def)
  with r show ?thesis by simp
qed

theorem one_record_per_marker_witness:
  "scenario_upstream (page_url scenario_base ''101'')
     = Page [\<lparr>entry_archive = Some ''A-1'',
              img_ref = Some ''http://upstream.example/img/photo1.jpg'',
              caption = Some ''Looking north'', heading = Some ''N''\<rparr>,
             \<lparr>entry_archive = None, img_ref = None, caption = None, heading = None\<rparr>]
   \<and> length (records (scrape_station scenario_upstream scenario_base ''101''
                \<lparr>fetches = [], failed = [], records = []\<rparr>)) = 2"
proof -
  have p: "scenario_upstream (page_url scenario_base ''101'')
     = Page [\<lparr>entry_archive = Some ''A-1'',
              img_ref = Some ''http://upstream.example/img/photo1.jpg'',
              caption = Some ''Looking north'', heading = Some ''N''\<rparr>,
             \<lparr>entry_archive = None, img_ref = None, caption = None, heading = None\<rparr>]"
    by (simp add: scenario_upstream_def page_url_def scenario_base_def)
  from one_record_per_marker [where upstream = scenario_upstream and base = scenario_base
      and sid = "''101''" and st = "\<lparr>fetches = [], failed = [], records = []\<rparr>", OF p] p
  show ?thesis
    by simp
qed

text \<open>
  C6. A record whose image URL is absent, empty or not resolvable to an absolute URL is
  skipped by the downloader: processing it raises no error and leaves the state as it is,
  so no HTTP fetch is made for it, and the run goes on with the next record exactly as if
  the record were not in the store.
\<close>

theorem unusable_url_skipped:
  assumes "image_url r = None \<or> image_url r = Some []
         \<or> (\<exists>u. image_url r = Some u \<and> resolve u = None)"
  shows "download_record resolve http can_write r st = Inr st
       \<and> download_all resolve http can_write (before @ r # rest) st
           = download_all resolve http can_write (before @ rest) st"
proof -
  from assms have "usable_url resolve r = None"
    by (auto simp: usable_url_def)
  then have skip: "download_record resolve http can_write r s = Inr s" for s
    by (simp add: download_record_def)
  have "download_all resolve http can_write (r # rest) s
      = download_all resolve http can_write rest s" for s
    by (simp add: skip)
  then have "download_all resolve http can_write (r # rest)
      = download_all resolve http can_write rest"
    by (rule ext)
  then show ?thesis
    by (simp add: skip download_all_append)
qed

theorem unusable_url_skipped_witness:
  "(image_url (photo ''101'' (Some ''img/photo0.jpg'')) = None
      \<or> image_url (photo ''101'' (Some ''img/photo0.jpg'')) = Some []
      \<or> (\<exists>u. image_url (photo ''101'' (Some ''img/photo0.jpg'')) = Some u
              \<and> absolute_only u = None))
   \<and> download_all absolute_only photo_server always_writable
        [photo ''101'' (Some ''img/photo0.jpg''),
         photo ''101'' (Some ''http://upstream.example/img/photo1.jpg'')] idle
     = Inr (idle\<lparr>http_calls := [''http://upstream.example/img/photo1.jpg''],
                 written := [(''101'', ''photo1.jpg'') \<mapsto> ''JPEG'']\<rparr>)"
proof -
  let ?r = "photo ''101'' (Some ''img/photo0.jpg'')"
  have h: "image_url ?r = None \<or> image_url ?r = Some []
      \<or> (\<exists>u. image_url ?r = Some u \<and> absolute_only u = None)"
    by (simp add: photo_def absolute_only_def)
  have "download_all absolute_only photo_server always_writable
          ([] @ [photo ''101'' (Some ''http://upstream.example/img/photo1.jpg'')]) idle
      = Inr (idle\<lparr>http_calls := [''http://upstream.example/img/photo1.jpg''],
                  written := [(''101'', ''photo1.jpg'') \<mapsto> ''JPEG'']\<rparr>)"
    by (simp add: download_record_def usable_url_def photo_def absolute_only_def
        photo_server_def always_writable_def last_segment_def idle_def)
  with unusable_url_skipped [where r = ?r and resolve = absolute_only and http = photo_server
      and can_write = always_writable and st = idle and before = "[]"
      and rest = "[photo ''101'' (Some ''http://upstream.example/img/photo1.jpg'')]", OF h] h
  show ?thesis
    by simp
qed

text \<open>
  C7. A station whose page fetch ends in a network failure or a non-success status
  contributes no record; the scraper goes on with the next station, and the failure does
  not reach the caller. In the scenario with the stations 101 and 205, where 101 has two
  matching elements, one of them without an image, and 205 times out, the run returns,
  and the MetadataStore holds exactly the two records of 101.
\<close>

theorem failed_station_contributes_nothing:
  assumes "upstream (page_url base sid) = NetworkFailure
         \<or> (\<exists>code. upstream (page_url base sid) = NonSuccess code)"
  shows "records (scrape_station upstream base sid st) = records st
       \<and> scrape_from upstream base (sid # rest) st
           = scrape_from upstream base rest
               (st\<lparr>fetches := fetches st @ [page_url base sid], failed := failed st @ [sid]\<rparr>)
       \<and> run_scraper scenario_files ''stations.csv'' scenario_upstream scenario_base True
           = Inr \<lparr>fetches = [''http://upstream.example/station/101'',
                             ''http://upstream.example/station/205''],
                  failed = [''205''],
                  records =
                    [\<lparr>station = ''101'', archive_number = Some ''A-1'',
                      image_url = Some ''http://upstream.example/img/photo1.jpg'',
                      summary = ''Looking north'', direction = ''N''\<rparr>,
                     \<lparr>station = ''101'', archive_number = None, image_url = None,
                      summary = [], direction = []\<rparr>]\<rparr>"
proof (intro conjI)
  from assms have step: "scrape_station upstream base sid st
      = st\<lparr>fetches := fetches st @ [page_url base sid], failed := failed st @ [sid]\<rparr>"
    by (auto simp: scrape_station_def Let_def)
  show "records (scrape_station upstream base sid st) = records st"
    by (simp add: step)
  show "scrape_from upstream base (sid # rest) st
      = scrape_from upstream base rest
          (st\<lparr>fetches := fetches st @ [page_url base sid], failed := failed st @ [sid]\<rparr>)"
    by (simp add: scrape_from_def step)
  show "run_scraper scenario_files ''stations.csv'' scenario_upstream scenario_base True
      = Inr \<lparr>fetches = [''http://upstream.example/station/101'',
                        ''http://upstream.example/station/205''],
             failed = [''205''],
             records =
               [\<lparr>station = ''101'', archive_number = Some ''A-1'',
                 image_url = Some ''http://upstream.example/img/photo1.jpg'',
                 summary = ''Looking north'', direction = ''N''\<rparr>,
                \<lparr>station = ''101'', archive_number = None, image_url = None,
                 summary = [], direction = []\<rparr>]\<rparr>"
    by (simp add: run_scraper_def load_stations_def scenario_files_def scrape_def
        scrape_from_def scrape_station_def page_url_def scenario_base_def
        scenario_upstream_def extract_record_def Let_def)
qed

theorem failed_station_contributes_nothing_witness:
  "(scenario_upstream (page_url scenario_base ''205'') = NetworkFailure
      \<or> (\<exists>code. scenario_upstream (page_url scenario_base ''205'') = NonSuccess code))
   \<and> records (scrape_station scenario_upstream scenario_base ''205''
        (scrape scenario_upstream scenario_base [''101'']))
     = records (scrape scenario_upstream scenario_base [''101''])
   \<and> length (records (scrape scenario_upstream scenario_base [''101''])) = 2"
proof -
  have h: "scenario_upstream (page_url scenario_base ''205'') = NetworkFailure
      \<or> (\<exists>code. scenario_upstream (page_url scenario_base ''205'') = NonSuccess code)"
    by (simp add: scenario_upstream_def page_url_def scenario_base_def)
  have l: "length (records (scrape scenario_upstream scenario_base [''101''])) = 2"
    by (simp add: scrape_def scrape_from_def scrape_station_def page_url_def scenario_base_def
        scenario_upstream_def Let_def)
  from failed_station_contributes_nothing [where upstream = scenario_upstream
      and base = scenario_base and sid = "''205''"
      and st = "scrape scenario_upstream scenario_base [''101'']", OF h] h l
  show ?thesis
    by simp
qed

text \<open>
  C8. Two responses that differ at most in the values of the \<open>code\<close> fields of the nodes
  of their edges give the same page and the same outcome, in both variants: the same
  markers at the same coordinates, with the same titles and the same popups. The query
  asks for the field all the same.
\<close>

theorem code_not_observed:
  assumes "code_variant (r :: 'n jsval) r'"
  shows "app_done numeric ns r p = app_done numeric ns r' p
       \<and> part0_done numeric ns r p = part0_done numeric ns r' p
       \<and> sublist ''code'' raingageQry"
proof -
  have q: "sublist ''code'' raingageQry"
    by (simp add: raingageQry_def sublist_code)
  from code_variant_edges [OF assms] consider "edges_of r = edges_of r'"
    | gs gs' where "edges_of r = Inr gs" "edges_of r' = Inr gs'"
        "list_all2 edge_code_variant gs gs'"
    by blast
  then show ?thesis
  proof cases
    case 1
    with q show ?thesis by (simp add: app_done_def part0_done_def)
  next
    case 2
    from 2(3) have "list_all2 (\<lambda>x y. \<forall>s::'n page. app_each numeric ns x s = app_each numeric ns y s) gs gs'"
      by (rule list_all2_mono) (simp add: edge_code_variant_each)
    then have a: "forEach (app_each numeric ns) gs p = forEach (app_each numeric ns) gs' p"
      by (rule forEach_related)
    from 2(3) have "list_all2 (\<lambda>x y. \<forall>s::'n page. part0_each numeric ns x s = part0_each numeric ns y s) gs gs'"
      by (rule list_all2_mono) (simp add: edge_code_variant_each)
    then have b: "forEach (part0_each numeric ns) gs p = forEach (part0_each numeric ns) gs' p"
      by (rule forEach_related)
    from 2(1,2) a b q show ?thesis
      by (simp add: app_done_def part0_done_def)
  qed
qed

theorem code_not_observed_witness:
  "code_variant two_gages two_gages_recoded
   \<and> two_gages \<noteq> two_gages_recoded
   \<and> app_done digits_only id two_gages blank_page
       = app_done digits_only id two_gages_recoded blank_page
   \<and> part0_done digits_only id two_gages blank_page
       = part0_done digits_only id two_gages_recoded blank_page"
proof -
  have v: "code_variant two_gages two_gages_recoded"
    by (simp add: code_variant_def edge_code_variant_def differs_at_def differs_in_elems_def
        two_gages_def two_gages_recoded_def response_of_def gage_node_def)
  have d: "two_gages \<noteq> two_gages_recoded"
    by (simp add: two_gages_def two_gages_recoded_def response_of_def gage_node_def)
  from code_not_observed [OF v, of digits_only id blank_page] v d show ?thesis
    by simp
qed

text \<open>
  C9, as stated, fails: when the name of the first of two gages is an object with a
  property of its own named \<open>toString\<close>, application.js adds both markers, and part_000
  registers the first marker, throws while the icon of that marker gets its title, and
  never reaches the second.
\<close>

theorem variants_differ_on_unprintable_name:
  "map latlng (markers (fst (app_done digits_only id odd_name_first blank_page)))
     = [Some [JNum ''31.81'', JNum ''-110.85''], Some [JNum ''31.72'', JNum ''-110.9'']]
   \<and> map latlng (markers (fst (part0_done digits_only id odd_name_first blank_page)))
     = [Some [JNum ''31.81'', JNum ''-110.85'']]
   \<and> snd (app_done digits_only id odd_name_first blank_page) = None
   \<and> snd (part0_done digits_only id odd_name_first blank_page) = Some TypeError"
  by (simp add: odd_name_first_def response_of_def gage_node_def app_done_def part0_done_def
      edges_of_def app_each_def part0_each_def coords_of_def field_def Lmarker_def
      toLatLng_def addTo_def title_option_def blank_page_def Let_def)

text \<open>
  C9, amended. For every response in which the id, name, latitude and longitude of the
  node of each edge have a string form, the two variants register markers for the same
  edges, the first \<open>n\<close> of the response, with the same positions, and end with the same
  outcome; \<open>n\<close> and the outcome are those that the data of the response give. The markers
  of application.js have no options and no popup; each marker of part_000 has, besides,
  the name of its node as title and, when it has a position, the popup of its edge.
\<close>

theorem variants_same_coords:
  assumes "list_all (fields_printable ns) (edges_in response)"
  shows "app_done numeric ns response p
           = (p\<lparr>markers := markers p @
                  map (plain_marker numeric ns)
                    (take (fst (response_fate numeric ns response)) (edges_in response))\<rparr>,
              snd (response_fate numeric ns response))
       \<and> part0_done numeric ns response p
           = (p\<lparr>markers := markers p @
                  map (titled_marker numeric ns)
                    (take (fst (response_fate numeric ns response)) (edges_in response))\<rparr>,
              snd (response_fate numeric ns response))
       \<and> map latlng (markers (fst (part0_done numeric ns response p)))
           = map latlng (markers (fst (app_done numeric ns response p)))"
proof (cases "response_edges response")
  case None
  then have "edges_of response = Inl TypeError" and "edges_in response = []"
    and "response_fate numeric ns response = (0, Some TypeError)"
    by (simp_all add: edges_of_response_edges edges_in_def response_fate_def)
  then show ?thesis
    by (simp add: app_done_def part0_done_def)
next
  case (Some gs)
  then have e: "edges_of response = Inr gs" and i: "edges_in response = gs"
    and f: "response_fate numeric ns response = edges_fate numeric ns gs"
    by (simp_all add: edges_of_response_edges edges_in_def response_fate_def)
  from assms i have "list_all (fields_printable ns) gs"
    by simp
  from forEach_variants [OF this, of numeric p p] e i f show ?thesis
    by (simp add: app_done_def part0_done_def plain_marker_def titled_marker_def comp_def)
qed

theorem variants_same_coords_witness:
  "list_all (fields_printable id) (edges_in two_gages)
   \<and> response_fate digits_only id two_gages = (2, None)
   \<and> app_done digits_only id two_gages blank_page
       = (blank_page\<lparr>markers :=
            [\<lparr>latlng = Some [JNum ''31.81'', JNum ''-110.85''], options = JUndefined,
              popup = None\<rparr>,
             \<lparr>latlng = Some [JNum ''31.72'', JNum ''-110.9''], options = JUndefined,
              popup = None\<rparr>]\<rparr>, None)
   \<and> map options (markers (fst (part0_done digits_only id two_gages blank_page)))
       = [JObj [(''title'', JStr ''Gage 1'')], JObj [(''title'', JStr ''Gage 2'')]]
   \<and> map latlng (markers (fst (part0_done digits_only id two_gages blank_page)))
       = [Some [JNum ''31.81'', JNum ''-110.85''], Some [JNum ''31.72'', JNum ''-110.9'']]"
proof -
  let ?g1 = "gage_node ''UmFpbjox'' ''31.81'' ''-110.85'' ''RG1'' (JStr ''Gage 1'')"
  let ?g2 = "gage_node ''UmFpbjoy'' ''31.72'' ''-110.9'' ''RG2'' (JStr ''Gage 2'')"
  have e: "edges_in two_gages = [?g1, ?g2]"
    by (simp add: edges_in_def response_edges_def own_def two_gages_def response_of_def)
  have f: "list_all (fields_printable id) (edges_in two_gages)"
    by (simp add: e fields_printable_def popup_fields_def printable_def
        the_prop_def gage_node_def)
  have n: "response_fate digits_only id two_gages = (2, None)"
    by (simp add: response_fate_def response_edges_def own_def two_gages_def response_of_def
        edge_fate_def nullish_def gage_position_def toLatLng_def gage_node_def)
  have a: "plain_marker digits_only id ?g1
      = \<lparr>latlng = Some [JNum ''31.81'', JNum ''-110.85''], options = JUndefined,
         popup = None\<rparr>"
    "plain_marker digits_only id ?g2
      = \<lparr>latlng = Some [JNum ''31.72'', JNum ''-110.9''], options = JUndefined,
         popup = None\<rparr>"
    by (simp_all add: plain_marker_def position_def gage_position_def toLatLng_def own_def
        gage_node_def)
  have t: "options (titled_marker digits_only id ?g1) = JObj [(''title'', JStr ''Gage 1'')]"
    "options (titled_marker digits_only id ?g2) = JObj [(''title'', JStr ''Gage 2'')]"
    by (simp_all add: titled_marker_def own_def gage_node_def)
  have l: "latlng (titled_marker digits_only id ?g1) = Some [JNum ''31.81'', JNum ''-110.85'']"
    "latlng (titled_marker digits_only id ?g2) = Some [JNum ''31.72'', JNum ''-110.9'']"
    by (simp_all add: titled_marker_def position_def gage_position_def toLatLng_def own_def
        gage_node_def)
  note v = variants_same_coords [OF f, of digits_only blank_page]
  from v have "app_done digits_only id two_gages blank_page
      = (blank_page\<lparr>markers := markers blank_page @
             map (plain_marker digits_only id)
               (take (fst (response_fate digits_only id two_gages)) (edges_in two_gages))\<rparr>,
         snd (response_fate digits_only id two_gages))"
    by (rule conjunct1)
  then have x: "app_done digits_only id two_gages blank_page
      = (blank_page\<lparr>markers :=
            [\<lparr>latlng = Some [JNum ''31.81'', JNum ''-110.85''], options = JUndefined,
              popup = None\<rparr>,
             \<lparr>latlng = Some [JNum ''31.72'', JNum ''-110.9''], options = JUndefined,
              popup = None\<rparr>]\<rparr>, None)"
    by (simp add: n e a blank_page_def)
  from v have "part0_done digits_only id two_gages blank_page
      = (blank_page\<lparr>markers := markers blank_page @
             map (titled_marker digits_only id)
               (take (fst (response_fate digits_only id two_gages)) (edges_in two_gages))\<rparr>,
         snd (response_fate digits_only id two_gages))"
    by (rule conjunct2 [THEN conjunct1])
  then have y: "part0_done digits_only id two_gages blank_page
      = (blank_page\<lparr>markers := map (titled_marker digits_only id) [?g1, ?g2]\<rparr>, None)"
    by (simp add: n e blank_page_def)
  from f n x show ?thesis
    by (simp add: y t l)
qed




end
